theory Spec2Isabelle
  imports Main
begin

section \<open>Data model\<close>

text \<open>
  The enums of \<^verbatim>\<open>common/enums/auction.enum.ts\<close> and the Mongoose schemas of
  \<^verbatim>\<open>database/schemas\<close>. Dates are milliseconds since the epoch (\<open>int\<close>), amounts are
  integers (minor currency units), document identifiers are strings, except the
  identifier of a bid, which the store generates (a fresh \<open>nat\<close>). The
  \<^verbatim>\<open>createdAt\<close>/\<^verbatim>\<open>updatedAt\<close> bookkeeping fields are left out.
\<close>

datatype AuctionStatus = PENDING | ACTIVE | ENDED

datatype BidStatus = BID_PENDING | ACCEPTED | REJECTED | OUTBID

record Auction =
  carId :: string
  title :: string
  description :: string
  startTime :: int
  endTime :: int
  startingBid :: int
  currentHighestBid :: int
  winnerId :: "string option"
  status :: AuctionStatus
  bidCount :: int

record Bid =
  bid_id :: nat
  userId :: string
  auctionId :: string
  bidAmount :: int
  timestamp :: int
  isWinning :: bool
  bid_status :: BidStatus

record User =
  username :: string
  email :: string

text \<open>The bid envelope taken from the queue (\<^verbatim>\<open>bidData\<close> of \<^verbatim>\<open>processBid\<close>).\<close>

record BidData =
  bd_auctionId :: string
  bd_userId :: string
  bd_bidAmount :: int
  bd_username :: string
  bd_socketId :: string

section \<open>Number formatting\<close>

text \<open>
  \<^verbatim>\<open>Number.prototype.toString\<close> on integers and \<^verbatim>\<open>parseInt(s, 10)\<close>: leading white
  space is skipped, an optional sign is read, then the longest prefix of decimal digits;
  with no digit the result is NaN, here \<open>None\<close>.
\<close>

definition digit_char :: "nat \<Rightarrow> char" where
  "digit_char d = ''0123456789'' ! d"

fun toString_nat :: "nat \<Rightarrow> string" where
  "toString_nat n =
     (if n < 10 then [digit_char n] else toString_nat (n div 10) @ [digit_char (n mod 10)])"

definition toString_int :: "int \<Rightarrow> string" where
  "toString_int i = (if i < 0 then CHR ''-'' # toString_nat (nat (- i)) else toString_nat (nat i))"

definition digit_val :: "char \<Rightarrow> nat option" where
  "digit_val c = map_of (zip ''0123456789'' [0, 1, 2, 3, 4, 5, 6, 7, 8, 9]) c"

definition is_digit :: "char \<Rightarrow> bool" where
  "is_digit c = (digit_val c \<noteq> None)"

definition is_space :: "char \<Rightarrow> bool" where
  "is_space c = (c = CHR '' '' \<or> c = CHR 0x09 \<or> c = CHR 0x0A \<or> c = CHR 0x0B
                 \<or> c = CHR 0x0C \<or> c = CHR 0x0D)"

fun digits_value :: "nat \<Rightarrow> string \<Rightarrow> nat" where
  "digits_value acc [] = acc"
| "digits_value acc (c # cs) =
     (case digit_val c of None \<Rightarrow> acc | Some d \<Rightarrow> digits_value (acc * 10 + d) cs)"

definition parseInt :: "string \<Rightarrow> int option" where
  "parseInt s =
     (let t = dropWhile is_space s;
          neg = (t \<noteq> [] \<and> hd t = CHR ''-'');
          u = (if t \<noteq> [] \<and> (hd t = CHR ''-'' \<or> hd t = CHR ''+'') then tl t else t);
          ds = takeWhile is_digit u
      in if ds = [] then None
         else Some (if neg then - int (digits_value 0 ds) else int (digits_value 0 ds)))"

text \<open>JavaScript's \<^verbatim>\<open>a || b\<close> on numbers: \<^verbatim>\<open>0\<close> is falsy.\<close>

definition js_or :: "int \<Rightarrow> int \<Rightarrow> int" where
  "js_or a b = (if a \<noteq> 0 then a else b)"

section \<open>The cache: Redis as the services use it\<close>

text \<open>
  The Redis server is outside the repository; the commands that \<^verbatim>\<open>RedisService\<close> and
  the connection-limit service send are modelled after the server's documented
  behaviour. A key holds a string, a set (a duplicate-free list) or a document written
  by \<^verbatim>\<open>setJson\<close> (\<open>RJson\<close>: the JSON text stands for the document it encodes), and an
  optional remaining time to live in milliseconds. \<open>TTL\<close> answers \<open>-2\<close> for a missing key, \<open>-1\<close>
  for a key without expiry and otherwise the remaining time rounded to the nearest
  second. Calls are modelled as succeeding; an unreachable server is not part of the
  model.
\<close>

datatype CacheDoc =
  HighestBidDoc nat string int int
| AuctionDoc Auction
| SocketInfoDoc string "string option"

datatype RedisValue = RString string | RSet "string list" | RJson CacheDoc

record RedisEntry =
  rvalue :: RedisValue
  pttl :: "int option"

datatype PubSubMessage =
  BID_UPDATE string nat string int int

record Redis =
  rkeys :: "string \<rightharpoonup> RedisEntry"
  published :: "(string \<times> PubSubMessage) list"

definition redis_get :: "Redis \<Rightarrow> string \<Rightarrow> string option" where
  "redis_get r k =
     (case rkeys r k of
        None \<Rightarrow> None
      | Some e \<Rightarrow> (case rvalue e of RString v \<Rightarrow> Some v | _ \<Rightarrow> None))"

definition redis_plain_set :: "string \<Rightarrow> string \<Rightarrow> Redis \<Rightarrow> Redis" where
  "redis_plain_set k v r = r\<lparr>rkeys := (rkeys r)(k \<mapsto> \<lparr>rvalue = RString v, pttl = None\<rparr>)\<rparr>"

definition redis_setex :: "string \<Rightarrow> int \<Rightarrow> string \<Rightarrow> Redis \<Rightarrow> Redis" where
  "redis_setex k secs v r =
     r\<lparr>rkeys := (rkeys r)(k \<mapsto> \<lparr>rvalue = RString v, pttl = Some (secs * 1000)\<rparr>)\<rparr>"

text \<open>\<^verbatim>\<open>RedisService.set(key, value, ttl?)\<close>: \<^verbatim>\<open>SETEX\<close> when \<^verbatim>\<open>ttl\<close> is truthy.\<close>

definition redis_set :: "string \<Rightarrow> string \<Rightarrow> int option \<Rightarrow> Redis \<Rightarrow> Redis" where
  "redis_set k v ttl r =
     (case ttl of
        None \<Rightarrow> redis_plain_set k v r
      | Some secs \<Rightarrow> if secs \<noteq> 0 then redis_setex k secs v r else redis_plain_set k v r)"

definition setJson :: "string \<Rightarrow> CacheDoc \<Rightarrow> int option \<Rightarrow> Redis \<Rightarrow> Redis" where
  "setJson k doc ttl r =
     (let keep = (case ttl of None \<Rightarrow> None | Some secs \<Rightarrow> if secs \<noteq> 0 then Some (secs * 1000) else None)
      in r\<lparr>rkeys := (rkeys r)(k \<mapsto> \<lparr>rvalue = RJson doc, pttl = keep\<rparr>)\<rparr>)"

definition getJson :: "Redis \<Rightarrow> string \<Rightarrow> CacheDoc option" where
  "getJson r k =
     (case rkeys r k of
        None \<Rightarrow> None
      | Some e \<Rightarrow> (case rvalue e of RJson doc \<Rightarrow> Some doc | _ \<Rightarrow> None))"

definition redis_del :: "string \<Rightarrow> Redis \<Rightarrow> Redis" where
  "redis_del k r = r\<lparr>rkeys := (rkeys r)(k := None)\<rparr>"

definition redis_exists :: "Redis \<Rightarrow> string \<Rightarrow> bool" where
  "redis_exists r k = (rkeys r k \<noteq> None)"

definition redis_ttl :: "Redis \<Rightarrow> string \<Rightarrow> int" where
  "redis_ttl r k =
     (case rkeys r k of
        None \<Rightarrow> - 2
      | Some e \<Rightarrow> (case pttl e of None \<Rightarrow> - 1 | Some ms \<Rightarrow> (ms + 500) div 1000))"

definition redis_expire :: "string \<Rightarrow> int \<Rightarrow> Redis \<Rightarrow> Redis" where
  "redis_expire k secs r =
     (case rkeys r k of
        None \<Rightarrow> r
      | Some e \<Rightarrow> r\<lparr>rkeys := (rkeys r)(k \<mapsto> e\<lparr>pttl := Some (secs * 1000)\<rparr>)\<rparr>)"

definition redis_smembers :: "Redis \<Rightarrow> string \<Rightarrow> string list" where
  "redis_smembers r k =
     (case rkeys r k of
        None \<Rightarrow> []
      | Some e \<Rightarrow> (case rvalue e of RSet xs \<Rightarrow> xs | _ \<Rightarrow> []))"

definition redis_sadd :: "string \<Rightarrow> string \<Rightarrow> Redis \<Rightarrow> Redis" where
  "redis_sadd k m r =
     (case rkeys r k of
        None \<Rightarrow> r\<lparr>rkeys := (rkeys r)(k \<mapsto> \<lparr>rvalue = RSet [m], pttl = None\<rparr>)\<rparr>
      | Some e \<Rightarrow>
          (case rvalue e of
             RSet xs \<Rightarrow>
               if m \<in> set xs then r
               else r\<lparr>rkeys := (rkeys r)(k \<mapsto> e\<lparr>rvalue := RSet (xs @ [m])\<rparr>)\<rparr>
           | _ \<Rightarrow> r))"

definition redis_srem :: "string \<Rightarrow> string \<Rightarrow> Redis \<Rightarrow> Redis" where
  "redis_srem k m r =
     (case rkeys r k of
        None \<Rightarrow> r
      | Some e \<Rightarrow>
          (case rvalue e of
             RSet xs \<Rightarrow>
               (let ys = removeAll m xs
                in if ys = [] then r\<lparr>rkeys := (rkeys r)(k := None)\<rparr>
                   else r\<lparr>rkeys := (rkeys r)(k \<mapsto> e\<lparr>rvalue := RSet ys\<rparr>)\<rparr>)
           | _ \<Rightarrow> r))"

definition redis_scard :: "Redis \<Rightarrow> string \<Rightarrow> nat" where
  "redis_scard r k = length (redis_smembers r k)"

text \<open>
  The passing of \<open>d\<close> milliseconds: times to live shrink and a key whose time is used
  up disappears.
\<close>

definition redis_elapse :: "int \<Rightarrow> Redis \<Rightarrow> Redis" where
  "redis_elapse d r =
     r\<lparr>rkeys := (\<lambda>k. case rkeys r k of
                        None \<Rightarrow> None
                      | Some e \<Rightarrow>
                          (case pttl e of
                             None \<Rightarrow> Some e
                           | Some ms \<Rightarrow> if ms - d \<le> 0 then None
                                        else Some (e\<lparr>pttl := Some (ms - d)\<rparr>)))\<rparr>"

subsection \<open>Distributed locking (\<^verbatim>\<open>RedisService.acquireLock\<close>, \<^verbatim>\<open>releaseLock\<close>)\<close>

text \<open>\<^verbatim>\<open>SET lock:key '1' PX ttl NX\<close>: the key is written only when it is absent.\<close>

definition acquireLock :: "string \<Rightarrow> int \<Rightarrow> Redis \<Rightarrow> bool \<times> Redis" where
  "acquireLock key ttl r =
     (if redis_exists r (''lock:'' @ key) then (False, r)
      else (True, r\<lparr>rkeys := (rkeys r)(''lock:'' @ key \<mapsto>
                           \<lparr>rvalue = RString ''1'', pttl = Some ttl\<rparr>)\<rparr>))"

definition releaseLock :: "string \<Rightarrow> Redis \<Rightarrow> Redis" where
  "releaseLock key r = redis_del (''lock:'' @ key) r"

section \<open>The queue adapter (\<^verbatim>\<open>RabbitmqService\<close>)\<close>

text \<open>
  The messages are kept as structured values. The \<^verbatim>\<open>eventType\<close> and
  \<^verbatim>\<open>timestamp\<close> fields that every publish adds are left out, as is the
  locale-formatted \<^verbatim>\<open>message\<close> text of the success and outbid notifications.
  The fields of \<open>BID_SUCCESS\<close> are userId, auctionId, bidId, bidAmount, auctionTitle; of
  \<open>OUTBID_NOTIFICATION\<close> auctionId, excludeUserId, newBidAmount, newBidUser,
  auctionTitle; of \<open>BID_FAILED\<close> userId, auctionId, message, bidAmount, error.
\<close>

datatype Notification =
  BID_SUCCESS string string nat int string
| OUTBID_NOTIFICATION string string int User string
| BID_FAILED string string string int string

datatype AuditDetails =
  PlacedDetails nat int int string int
| FailedDetails int string

record AuditLog =
  action :: string
  audit_auctionId :: string
  audit_userId :: string
  success :: bool
  details :: AuditDetails

datatype QueueMessage =
  BidPlacedMsg BidData
| NotificationMsg Notification
| AuditLogMsg AuditLog

datatype LogLevel = WARN | ERROR

record Rabbit =
  channel :: bool
  outbox :: "(string \<times> string \<times> QueueMessage) list"

section \<open>The state of the server\<close>

record System =
  auctions :: "string \<rightharpoonup> Auction"
  bids :: "Bid list"
  users :: "string \<rightharpoonup> User"
  redis :: Redis
  rabbit :: Rabbit
  logs :: "(LogLevel \<times> string) list"

definition logger :: "LogLevel \<Rightarrow> string \<Rightarrow> System \<Rightarrow> System" where
  "logger lvl msg s = s\<lparr>logs := logs s @ [(lvl, msg)]\<rparr>"

definition publishToExchange :: "string \<Rightarrow> string \<Rightarrow> QueueMessage \<Rightarrow> System \<Rightarrow> System" where
  "publishToExchange exchange routingKey message s =
     (if \<not> channel (rabbit s)
      then logger WARN ''RabbitMQ channel not available, skipping message'' s
      else s\<lparr>rabbit := (rabbit s)\<lparr>outbox := outbox (rabbit s) @ [(exchange, routingKey, message)]\<rparr>\<rparr>)"

definition publishBidProcessing :: "BidData \<Rightarrow> System \<Rightarrow> System" where
  "publishBidProcessing bid s = publishToExchange ''auction-events'' ''bid.placed'' (BidPlacedMsg bid) s"

definition publishNotification :: "Notification \<Rightarrow> System \<Rightarrow> System" where
  "publishNotification n s = publishToExchange ''notifications'' ''notification'' (NotificationMsg n) s"

definition publishAuditLog :: "AuditLog \<Rightarrow> System \<Rightarrow> System" where
  "publishAuditLog l s = publishToExchange ''audit'' ''audit'' (AuditLogMsg l) s"

section \<open>The bid processor (\<^verbatim>\<open>BidProcessorService\<close>)\<close>

text \<open>The errors \<^verbatim>\<open>processBid\<close> throws, and the message each one carries.\<close>

datatype ProcError =
  LockNotAcquired
| AuctionNotFound
| AuctionNotActive
| AuctionNotStarted
| AuctionHasEnded
| BidBelowMinimum int
| UserNotFound
| AuctionUpdateFailed

fun error_message :: "ProcError \<Rightarrow> string" where
  "error_message LockNotAcquired = ''Could not acquire lock for bid processing''"
| "error_message AuctionNotFound = ''Auction not found''"
| "error_message AuctionNotActive = ''Auction is not active''"
| "error_message AuctionNotStarted = ''Auction has not started yet''"
| "error_message AuctionHasEnded = ''Auction has ended''"
| "error_message (BidBelowMinimum m) = ''Bid must be at least $'' @ toString_int m"
| "error_message UserNotFound = ''User not found''"
| "error_message AuctionUpdateFailed = ''Failed to update auction''"

text \<open>The identifier the store gives a new bid: one no stored bid has.\<close>

definition next_bid_id :: "Bid list \<Rightarrow> nat" where
  "next_bid_id bs = fold (\<lambda>b n. max (Suc (bid_id b)) n) bs 0"

text \<open>\<^verbatim>\<open>new this.bidModel({...})\<close> in \<^verbatim>\<open>processBid\<close>.\<close>

definition createBid :: "BidData \<Rightarrow> int \<Rightarrow> Bid list \<Rightarrow> Bid" where
  "createBid bidData now bs =
     \<lparr>bid_id = next_bid_id bs, userId = bd_userId bidData, auctionId = bd_auctionId bidData,
      bidAmount = bd_bidAmount bidData, timestamp = now, isWinning = True, bid_status = ACCEPTED\<rparr>"

text \<open>
  \<^verbatim>\<open>bidModel.updateMany({auctionId, isWinning: true, _id: {$ne: newBid._id}},
  {isWinning: false, status: OUTBID})\<close>.
\<close>

definition outbidSweep :: "string \<Rightarrow> nat \<Rightarrow> Bid list \<Rightarrow> Bid list" where
  "outbidSweep aid newId bs =
     map (\<lambda>b. if auctionId b = aid \<and> isWinning b \<and> bid_id b \<noteq> newId
              then b\<lparr>isWinning := False, bid_status := OUTBID\<rparr> else b) bs"

text \<open>
  \<^verbatim>\<open>auctionModel.findByIdAndUpdate(id, {$set: {currentHighestBid, winnerId},
  $inc: {bidCount: 1}}, {new: true})\<close>: the updated document, or nothing when no
  auction has the identifier.
\<close>

definition findByIdAndUpdate ::
  "string \<Rightarrow> int \<Rightarrow> string \<Rightarrow> (string \<rightharpoonup> Auction) \<Rightarrow> Auction option \<times> (string \<rightharpoonup> Auction)" where
  "findByIdAndUpdate aid amount uid m =
     (case m aid of
        None \<Rightarrow> (None, m)
      | Some a \<Rightarrow>
          (let a' = a\<lparr>currentHighestBid := amount, winnerId := Some uid, bidCount := bidCount a + 1\<rparr>
           in (Some a', m(aid \<mapsto> a'))))"

definition handleSuccessfulBid :: "Bid \<Rightarrow> User \<Rightarrow> Auction \<Rightarrow> System \<Rightarrow> System" where
  "handleSuccessfulBid bid user auction s =
     (let r1 = setJson (''auction:'' @ auctionId bid @ '':highest-bid'')
                 (HighestBidDoc (bid_id bid) (userId bid) (bidAmount bid) (timestamp bid))
                 (Some 60) (redis s);
          r2 = setJson (''auction:'' @ auctionId bid) (AuctionDoc auction) (Some 300) r1;
          r3 = r2\<lparr>published := published r2 @
                 [(''auction:'' @ auctionId bid @ '':bids'',
                   BID_UPDATE (auctionId bid) (bid_id bid) (userId bid) (bidAmount bid) (timestamp bid))]\<rparr>;
          s1 = s\<lparr>redis := r3\<rparr>;
          s2 = publishNotification
                 (BID_SUCCESS (userId bid) (auctionId bid) (bid_id bid) (bidAmount bid) (title auction)) s1;
          s3 = publishNotification
                 (OUTBID_NOTIFICATION (auctionId bid) (userId bid) (bidAmount bid) user (title auction)) s2
      in publishAuditLog
           \<lparr>action = ''BID_PLACED'', audit_auctionId = auctionId bid, audit_userId = userId bid,
            success = True,
            details = PlacedDetails (bid_id bid) (bidAmount bid) (currentHighestBid auction - 100)
                        (title auction) (timestamp bid)\<rparr> s3)"

definition handleFailedBid :: "BidData \<Rightarrow> string \<Rightarrow> System \<Rightarrow> System" where
  "handleFailedBid bidData errorMessage s =
     (let s1 = publishNotification
                 (BID_FAILED (bd_userId bidData) (bd_auctionId bidData)
                    (''Failed to place bid: '' @ errorMessage) (bd_bidAmount bidData) errorMessage) s
      in publishAuditLog
           \<lparr>action = ''BID_FAILED'', audit_auctionId = bd_auctionId bidData,
            audit_userId = bd_userId bidData, success = False,
            details = FailedDetails (bd_bidAmount bidData) errorMessage\<rparr> s1)"

text \<open>
  The \<^verbatim>\<open>try\<close> block of \<^verbatim>\<open>processBid\<close>: the error thrown, if any, and the state at that
  point. \<open>now\<close> is the server time read by \<^verbatim>\<open>new Date()\<close>.
\<close>

definition processBid_try :: "BidData \<Rightarrow> int \<Rightarrow> System \<Rightarrow> (ProcError + unit) \<times> System" where
  "processBid_try bidData now s =
     (let lockKey = ''bid-processing:'' @ bd_auctionId bidData;
          (lockAcquired, r1) = acquireLock lockKey 10000 (redis s);
          s1 = s\<lparr>redis := r1\<rparr>
      in if \<not> lockAcquired then (Inl LockNotAcquired, s1)
         else case auctions s1 (bd_auctionId bidData) of
           None \<Rightarrow> (Inl AuctionNotFound, s1)
         | Some auction \<Rightarrow>
             if status auction \<noteq> ACTIVE then (Inl AuctionNotActive, s1)
             else if now < startTime auction then (Inl AuctionNotStarted, s1)
             else if now > endTime auction then (Inl AuctionHasEnded, s1)
             else
               let minBidAmount = js_or (currentHighestBid auction) (startingBid auction) + 100
               in if bd_bidAmount bidData < minBidAmount then (Inl (BidBelowMinimum minBidAmount), s1)
                  else case users s1 (bd_userId bidData) of
                    None \<Rightarrow> (Inl UserNotFound, s1)
                  | Some user \<Rightarrow>
                      let newBid = createBid bidData now (bids s1);
                          s2 = s1\<lparr>bids := bids s1 @ [newBid]\<rparr>;
                          s3 = s2\<lparr>bids := outbidSweep (bd_auctionId bidData) (bid_id newBid) (bids s2)\<rparr>;
                          (updatedAuction, m) = findByIdAndUpdate (bd_auctionId bidData)
                                                  (bd_bidAmount bidData) (bd_userId bidData) (auctions s3);
                          s4 = s3\<lparr>auctions := m\<rparr>
                      in case updatedAuction of
                           None \<Rightarrow> (Inl AuctionUpdateFailed, s4)
                         | Some ua \<Rightarrow> (Inr (), handleSuccessfulBid newBid user ua s4))"

text \<open>
  \<^verbatim>\<open>processBid\<close> with its \<^verbatim>\<open>catch\<close> (log, failure notifications, rethrow) and its
  \<^verbatim>\<open>finally\<close> (release of the lock).
\<close>

definition processBid :: "BidData \<Rightarrow> int \<Rightarrow> System \<Rightarrow> (ProcError + unit) \<times> System" where
  "processBid bidData now s =
     (let (res, s1) = processBid_try bidData now s;
          s2 = (case res of
                  Inr _ \<Rightarrow> s1
                | Inl e \<Rightarrow>
                    handleFailedBid bidData (error_message e)
                      (logger ERROR (''Failed to process bid for auction '' @ bd_auctionId bidData
                                     @ '': '' @ error_message e) s1))
      in (res, s2\<lparr>redis := releaseLock (''bid-processing:'' @ bd_auctionId bidData) (redis s2)\<rparr>))"



section \<open>The auction service (\<^verbatim>\<open>AuctionsService\<close>)\<close>

datatype HttpException = BadRequestException string | NotFoundException string

record CreateAuctionDto =
  dto_carId :: string
  dto_title :: string
  dto_description :: string
  dto_startTime :: int
  dto_endTime :: int
  dto_startingBid :: int

text \<open>
  \<^verbatim>\<open>AuctionsService.create\<close>. The two date strings of the request are taken as already
  parsed (the request validator admits date strings only); \<open>now\<close> is the time read by
  \<^verbatim>\<open>new Date()\<close> and \<open>newId\<close> the identifier the store gives the saved document.
\<close>

definition create ::
  "CreateAuctionDto \<Rightarrow> int \<Rightarrow> string \<Rightarrow> System \<Rightarrow> (HttpException + Auction) \<times> System" where
  "create createAuctionDto now newId s =
     (let startTime' = dto_startTime createAuctionDto;
          endTime' = dto_endTime createAuctionDto
      in if startTime' \<ge> endTime'
         then (Inl (BadRequestException ''Start time must be before end time''), s)
         else
           let shouldStartImmediately = (startTime' \<le> now);
               status' = (if shouldStartImmediately then ACTIVE else PENDING);
               auction = \<lparr>carId = dto_carId createAuctionDto, title = dto_title createAuctionDto,
                          description = dto_description createAuctionDto,
                          startTime = (if shouldStartImmediately then now else startTime'),
                          endTime = endTime', startingBid = dto_startingBid createAuctionDto,
                          currentHighestBid = dto_startingBid createAuctionDto,
                          winnerId = None, status = status', bidCount = 0\<rparr>
           in (Inr auction, s\<lparr>auctions := (auctions s)(newId \<mapsto> auction)\<rparr>))"

definition findOne :: "(string \<rightharpoonup> Auction) \<Rightarrow> string \<Rightarrow> HttpException + Auction" where
  "findOne m aid =
     (case m aid of None \<Rightarrow> Inl (NotFoundException ''Auction not found'') | Some a \<Rightarrow> Inr a)"

definition updateHighestBid ::
  "string \<Rightarrow> int \<Rightarrow> string \<Rightarrow> (string \<rightharpoonup> Auction) \<Rightarrow> HttpException + (Auction \<times> (string \<rightharpoonup> Auction))" where
  "updateHighestBid aid amount uid m =
     (case findByIdAndUpdate aid amount uid m of
        (None, _) \<Rightarrow> Inl (NotFoundException ''Auction not found'')
      | (Some a, m') \<Rightarrow> Inr (a, m'))"

section \<open>The HTTP bid path (\<^verbatim>\<open>BidsService.placeBid\<close>)\<close>

record PlaceBidDto =
  pb_auctionId :: string
  pb_bidAmount :: int
  pb_userId :: string

record IBidEvent =
  ev_auctionId :: string
  ev_bidId :: nat
  ev_userId :: string
  ev_username :: string
  ev_bidAmount :: int
  previousHighestBid :: int
  ev_timestamp :: int

text \<open>\<^verbatim>\<open>bidModel.findOne({auctionId, isWinning: true})\<close>: the first such bid.\<close>

definition findWinningBid :: "string \<Rightarrow> Bid list \<Rightarrow> Bid option" where
  "findWinningBid aid bs = find (\<lambda>b. auctionId b = aid \<and> isWinning b) bs"

text \<open>\<^verbatim>\<open>bidModel.updateOne({_id}, {isWinning: false})\<close>: the first bid with the identifier.\<close>

fun updateOne_notWinning :: "nat \<Rightarrow> Bid list \<Rightarrow> Bid list" where
  "updateOne_notWinning i [] = []"
| "updateOne_notWinning i (b # bs) =
     (if bid_id b = i then b\<lparr>isWinning := False\<rparr> # bs else b # updateOne_notWinning i bs)"

text \<open>
  What \<^verbatim>\<open>placeBid\<close> throws: an HTTP exception, or a \<^verbatim>\<open>TypeError\<close> that nothing
  catches.
\<close>

datatype PlaceBidError = Http HttpException | TypeError string

text \<open>
  \<^verbatim>\<open>populate('userId', 'username')\<close> replaces the user reference of a bid by the user's
  document, or by \<^verbatim>\<open>null\<close> when the store has no such user. The text of a document
  (\<^verbatim>\<open>toString()\<close>) is the printed object, in braces, not its identifier; the layout
  inside the braces is schematic here.
\<close>

definition document_toString :: "string \<Rightarrow> User \<Rightarrow> string" where
  "document_toString uid u = ''{ _id: '' @ uid @ '', username: '' @ username u @ '' }''"

text \<open>
  \<^verbatim>\<open>placeBid\<close>. The check for the bidder being the highest bidder already compares
  the text of the populated user document of the winning bid with the bidder's
  identifier; when that user is missing, taking the text of \<^verbatim>\<open>null\<close> throws before
  the \<^verbatim>\<open>try\<close>. Reading the name of a missing user for the event throws inside the
  \<^verbatim>\<open>try\<close>, whose \<^verbatim>\<open>catch\<close> turns every error into the one bad-request answer. An
  aborted transaction leaves the bids as they were.
\<close>

definition placeBid ::
  "PlaceBidDto \<Rightarrow> int \<Rightarrow> System \<Rightarrow> (PlaceBidError + (Bid \<times> IBidEvent)) \<times> System" where
  "placeBid placeBidDto now s =
     (let aid = pb_auctionId placeBidDto; amount = pb_bidAmount placeBidDto;
          uid = pb_userId placeBidDto
      in case findOne (auctions s) aid of
           Inl e \<Rightarrow> (Inl (Http e), s)
         | Inr auction \<Rightarrow>
             if status auction \<noteq> ACTIVE
               then (Inl (Http (BadRequestException ''Auction is not active'')), s)
             else if now < startTime auction \<or> now > endTime auction
               then (Inl (Http (BadRequestException ''Auction is not currently running'')), s)
             else if amount \<le> currentHighestBid auction
               then (Inl (Http (BadRequestException
                                  (''Bid amount must be higher than current highest bid: ''
                                   @ toString_int (currentHighestBid auction)))), s)
             else
               let cur = findWinningBid aid (bids s);
                   thrown =
                     (case cur of
                        None \<Rightarrow> None
                      | Some c \<Rightarrow>
                          (case users s (userId c) of
                             None \<Rightarrow> Some (TypeError ''Cannot read properties of null'')
                           | Some owner \<Rightarrow>
                               if document_toString (userId c) owner = uid
                               then Some (Http (BadRequestException ''You are already the highest bidder''))
                               else None))
               in case thrown of
                    Some e \<Rightarrow> (Inl e, s)
                  | None \<Rightarrow>
                    let bs1 = (case cur of None \<Rightarrow> bids s
                               | Some c \<Rightarrow> updateOne_notWinning (bid_id c) (bids s));
                        bid = \<lparr>bid_id = next_bid_id (bids s), userId = uid, auctionId = aid,
                               bidAmount = amount, timestamp = now, isWinning = True,
                               bid_status = ACCEPTED\<rparr>;
                        bs2 = bs1 @ [bid];
                        failed = Http (BadRequestException ''Failed to place bid due to concurrent bidding'')
                    in case updateHighestBid aid amount uid (auctions s) of
                         Inl _ \<Rightarrow> (Inl failed, s)
                       | Inr (_, m) \<Rightarrow>
                           let s' = s\<lparr>bids := bs2, auctions := m\<rparr>
                           in case findWinningBid aid bs2 of
                                None \<Rightarrow> (Inl failed, s')
                              | Some newBid \<Rightarrow>
                                  (case users s' (userId newBid) of
                                     None \<Rightarrow> (Inl failed, s')
                                   | Some u \<Rightarrow>
                                       (Inr (newBid,
                                             \<lparr>ev_auctionId = aid, ev_bidId = bid_id newBid,
                                              ev_userId = uid, ev_username = username u,
                                              ev_bidAmount = amount,
                                              previousHighestBid =
                                                (case cur of
                                                   None \<Rightarrow> startingBid auction
                                                 | Some c \<Rightarrow> js_or (bidAmount c) (startingBid auction)),
                                              ev_timestamp = now\<rparr>), s')))"

section \<open>The admission controller (\<^verbatim>\<open>WebSocketConnectionLimitService\<close>)\<close>

text \<open>
  The service works on the cache only. Durations are milliseconds; the division by
  \<open>1000\<close> is exact for whole seconds, as the defaults are. A user identifier is optional
  and, as JavaScript has it, an empty one counts as absent. Its log lines are left out.
\<close>

record ConnectionLimitOptions =
  maxConnectionsPerIP :: int
  maxConnectionsPerUser :: int
  windowMs :: int
  blockDuration :: int

definition defaultOptions :: ConnectionLimitOptions where
  "defaultOptions = \<lparr>maxConnectionsPerIP = 5, maxConnectionsPerUser = 3,
                      windowMs = 60 * 1000, blockDuration = 5 * 60 * 1000\<rparr>"

record LimitResult =
  allowed :: bool
  reason :: "string option"
  retryAfter :: "int option"

definition truthy :: "string option \<Rightarrow> bool" where
  "truthy v = (case v of None \<Rightarrow> False | Some x \<Rightarrow> x \<noteq> [])"

text \<open>\<^verbatim>\<open>v ? parseInt(v, 10) : 0\<close>; \<open>None\<close> is NaN, which no comparison satisfies.\<close>

definition connectionCount :: "string option \<Rightarrow> int option" where
  "connectionCount v = (case v of None \<Rightarrow> Some 0 | Some x \<Rightarrow> if x = [] then Some 0 else parseInt x)"

text \<open>The identifier inside a template string: \<^verbatim>\<open>`${userId}`\<close>.\<close>

definition template :: "string option \<Rightarrow> string" where
  "template v = (case v of None \<Rightarrow> ''undefined'' | Some x \<Rightarrow> x)"

definition at_least :: "int option \<Rightarrow> int \<Rightarrow> bool" where
  "at_least c m = (case c of None \<Rightarrow> False | Some n \<Rightarrow> n \<ge> m)"

definition blocked :: "string \<Rightarrow> int \<Rightarrow> LimitResult" where
  "blocked why secs = \<lparr>allowed = False, reason = Some why, retryAfter = Some secs\<rparr>"

definition checkConnectionLimit ::
  "string \<Rightarrow> string option \<Rightarrow> ConnectionLimitOptions \<Rightarrow> Redis \<Rightarrow> LimitResult \<times> Redis" where
  "checkConnectionLimit clientIP uid config r =
     (let ipBlockKey = ''ws-block:ip:'' @ clientIP;
          userBlockKey = ''ws-block:user:'' @ template uid
      in if redis_exists r ipBlockKey
         then (let ttl = redis_ttl r ipBlockKey
               in (blocked ''IP temporarily blocked due to too many connections''
                     (if ttl > 0 then ttl else blockDuration config div 1000), r))
         else if truthy uid \<and> redis_exists r userBlockKey
         then (let ttl = redis_ttl r userBlockKey
               in (blocked ''User temporarily blocked due to too many connections''
                     (if ttl > 0 then ttl else blockDuration config div 1000), r))
         else
           let currentIPConnections = connectionCount (redis_get r (''ws-connections:ip:'' @ clientIP))
           in if at_least currentIPConnections (maxConnectionsPerIP config)
              then (blocked ''Too many connections from this IP address'' (blockDuration config div 1000),
                    redis_set ipBlockKey ''1'' (Some (blockDuration config div 1000)) r)
              else if truthy uid \<and>
                      at_least (connectionCount (redis_get r (''ws-connections:user:'' @ template uid)))
                        (maxConnectionsPerUser config)
              then (blocked ''Too many connections for this user'' (blockDuration config div 1000),
                    redis_set userBlockKey ''1'' (Some (blockDuration config div 1000)) r)
              else (\<lparr>allowed = True, reason = None, retryAfter = None\<rparr>, r))"

definition trackConnection ::
  "string \<Rightarrow> string \<Rightarrow> string option \<Rightarrow> ConnectionLimitOptions \<Rightarrow> Redis \<Rightarrow> Redis" where
  "trackConnection clientIP socketId uid config r =
     (let ipConnectionKey = ''ws-connections:ip:'' @ clientIP;
          ipSocketKey = ''ws-sockets:ip:'' @ clientIP;
          r1 = redis_sadd ipSocketKey socketId r;
          ipCount = redis_scard r1 ipSocketKey;
          r2 = redis_set ipConnectionKey (toString_nat ipCount) (Some (windowMs config div 1000)) r1;
          r3 = redis_expire ipSocketKey (windowMs config div 1000) r2;
          r4 = (if truthy uid
                then (let userConnectionKey = ''ws-connections:user:'' @ template uid;
                          userSocketKey = ''ws-sockets:user:'' @ template uid;
                          u1 = redis_sadd userSocketKey socketId r3;
                          userCount = redis_scard u1 userSocketKey;
                          u2 = redis_set userConnectionKey (toString_nat userCount)
                                 (Some (windowMs config div 1000)) u1
                      in redis_expire userSocketKey (windowMs config div 1000) u2)
                else r3)
      in setJson (''ws-socket:'' @ socketId) (SocketInfoDoc clientIP uid)
           (Some (windowMs config div 1000)) r4)"

definition untrackConnection :: "string \<Rightarrow> Redis \<Rightarrow> Redis" where
  "untrackConnection socketId r =
     (case getJson r (''ws-socket:'' @ socketId) of
        Some (SocketInfoDoc clientIP uid) \<Rightarrow>
          (let ipSocketKey = ''ws-sockets:ip:'' @ clientIP;
               ipConnectionKey = ''ws-connections:ip:'' @ clientIP;
               r1 = redis_srem ipSocketKey socketId r;
               ipCount = redis_scard r1 ipSocketKey;
               r2 = (if ipCount > 0 then redis_set ipConnectionKey (toString_nat ipCount) None r1
                     else redis_del ipSocketKey (redis_del ipConnectionKey r1));
               r3 = (if truthy uid
                     then (let userSocketKey = ''ws-sockets:user:'' @ template uid;
                               userConnectionKey = ''ws-connections:user:'' @ template uid;
                               u1 = redis_srem userSocketKey socketId r2;
                               userCount = redis_scard u1 userSocketKey
                           in if userCount > 0
                              then redis_set userConnectionKey (toString_nat userCount) None u1
                              else redis_del userSocketKey (redis_del userConnectionKey u1))
                     else r2)
           in redis_del (''ws-socket:'' @ socketId) r3)
      | _ \<Rightarrow> r)"

section \<open>The gateway's bid intent (\<^verbatim>\<open>WebsocketGateway.handlePlaceBid\<close>)\<close>

record SocketUser =
  su_id :: string
  su_username :: string
  su_email :: string

record Socket =
  socket_id :: string
  data_user :: "SocketUser option"

datatype WebSocketEvent = BidReceived string | ErrorEvent string

text \<open>
  The events emitted to the socket and the new state. A socket without user data makes
  the read of \<^verbatim>\<open>socket.data.user._id\<close> throw; the \<^verbatim>\<open>catch\<close> emits the error event.
\<close>

definition handlePlaceBid ::
  "string \<times> int \<Rightarrow> Socket \<Rightarrow> System \<Rightarrow> WebSocketEvent list \<times> System" where
  "handlePlaceBid bidData socket s =
     (case data_user socket of
        None \<Rightarrow>
          ([ErrorEvent ''Cannot read properties of undefined''],
           logger ERROR ''Place bid error: Cannot read properties of undefined'' s)
      | Some user \<Rightarrow>
          (let bidPayload = \<lparr>bd_auctionId = fst bidData, bd_userId = su_id user,
                             bd_bidAmount = snd bidData, bd_username = su_username user,
                             bd_socketId = socket_id socket\<rparr>;
               s1 = publishBidProcessing bidPayload s
           in ([BidReceived ''Bid is being processed''], s1)))"

section \<open>The properties of the stored bids\<close>

definition winningBids :: "string \<Rightarrow> Bid list \<Rightarrow> Bid list" where
  "winningBids aid bs = filter (\<lambda>b. auctionId b = aid \<and> isWinning b) bs"

text \<open>
  At most one bid of the auction is winning, and a winning bid carries the auction's
  current highest bid.
\<close>

definition winner_invariant :: "System \<Rightarrow> string \<Rightarrow> bool" where
  "winner_invariant s aid =
     (length (winningBids aid (bids s)) \<le> 1 \<and>
      (case auctions s aid of
         None \<Rightarrow> True
       | Some a \<Rightarrow> list_all (\<lambda>b. bidAmount b = currentHighestBid a) (winningBids aid (bids s))))"

definition acceptedCount :: "string \<Rightarrow> Bid list \<Rightarrow> nat" where
  "acceptedCount aid bs = length (filter (\<lambda>b. auctionId b = aid \<and> bid_status b = ACCEPTED) bs)"

text \<open>The bids of an auction that were accepted at some time: status ACCEPTED or OUTBID.\<close>

definition everAcceptedCount :: "string \<Rightarrow> Bid list \<Rightarrow> nat" where
  "everAcceptedCount aid bs =
     length (filter (\<lambda>b. auctionId b = aid \<and> (bid_status b = ACCEPTED \<or> bid_status b = OUTBID)) bs)"

definition winning_are_accepted :: "Bid list \<Rightarrow> bool" where
  "winning_are_accepted bs = list_all (\<lambda>b. \<not> isWinning b \<or> bid_status b = ACCEPTED) bs"

definition bidCount_matches :: "System \<Rightarrow> string \<Rightarrow> bool" where
  "bidCount_matches s aid =
     (case auctions s aid of
        None \<Rightarrow> True
      | Some a \<Rightarrow> int (everAcceptedCount aid (bids s)) = bidCount a)"

section \<open>Example data\<close>

text \<open>
  One running auction with two registered users, nothing cached and the queue
  connected; the bids of the first scenario of the specification.
\<close>

definition demo_auction :: Auction where
  "demo_auction = \<lparr>carId = ''CAR001'', title = ''Ferrari F8'', description = ''A red Ferrari'',
                    startTime = 1000, endTime = 2000, startingBid = 250000,
                    currentHighestBid = 250000, winnerId = None, status = ACTIVE, bidCount = 0\<rparr>"

text \<open>The same auction with no current highest bid recorded (the field at 0).\<close>

definition demo_unbid :: "System \<Rightarrow> System" where
  "demo_unbid s = s\<lparr>auctions := [''A'' \<mapsto> demo_auction\<lparr>currentHighestBid := 0\<rparr>]\<rparr>"

definition demo_redis :: Redis where
  "demo_redis = \<lparr>rkeys = Map.empty, published = []\<rparr>"

definition demo_system :: System where
  "demo_system = \<lparr>auctions = [''A'' \<mapsto> demo_auction], bids = [],
                   users = [''U1'' \<mapsto> \<lparr>username = ''ann'', email = ''ann@example.org''\<rparr>,
                            ''U2'' \<mapsto> \<lparr>username = ''bob'', email = ''bob@example.org''\<rparr>],
                   redis = demo_redis, rabbit = \<lparr>channel = True, outbox = []\<rparr>, logs = []\<rparr>"

definition demo_bid :: "string \<Rightarrow> int \<Rightarrow> BidData" where
  "demo_bid uid amount = \<lparr>bd_auctionId = ''A'', bd_userId = uid, bd_bidAmount = amount,
                           bd_username = uid, bd_socketId = ''socket-'' @ uid\<rparr>"

text \<open>The states after the first and after the second bid of the scenario.\<close>

definition demo_after_first :: System where
  "demo_after_first = snd (processBid (demo_bid ''U1'' 250100) 1500 demo_system)"

definition demo_after_second :: System where
  "demo_after_second = snd (processBid (demo_bid ''U2'' 250200) 1501 demo_after_first)"

text \<open>The same system while another worker holds the lock of the auction.\<close>

definition demo_locked :: System where
  "demo_locked = demo_system\<lparr>redis := snd (acquireLock ''bid-processing:A'' 10000 demo_redis)\<rparr>"

text \<open>An authenticated socket and a request to create an auction.\<close>

definition demo_socket :: Socket where
  "demo_socket = \<lparr>socket_id = ''socket-1'',
                   data_user = Some \<lparr>su_id = ''U1'', su_username = ''ann'', su_email = ''ann@example.org''\<rparr>\<rparr>"

definition demo_dto :: "int \<Rightarrow> int \<Rightarrow> CreateAuctionDto" where
  "demo_dto start end' = \<lparr>dto_carId = ''CAR002'', dto_title = ''Lamborghini'',
                           dto_description = ''A white Lamborghini'', dto_startTime = start,
                           dto_endTime = end', dto_startingBid = 250000\<rparr>"

text \<open>
  The connections of one address, each a socket identifier with an optional user,
  tracked one after the other with the default options.
\<close>

definition trackAll :: "string \<Rightarrow> (string \<times> string option) list \<Rightarrow> Redis \<Rightarrow> Redis" where
  "trackAll clientIP conns r =
     fold (\<lambda>(socketId, uid). trackConnection clientIP socketId uid defaultOptions) conns r"

text \<open>
  Five connections tracked for one address, the cache after the check that follows
  them, and that cache 299.6 s later.
\<close>

definition demo_tracked :: Redis where
  "demo_tracked = trackAll ''10.0.0.7''
     [(''s1'', None), (''s2'', Some ''U1''), (''s3'', None), (''s4'', Some ''U2''), (''s5'', None)]
     demo_redis"

definition demo_blocked :: Redis where
  "demo_blocked = snd (checkConnectionLimit ''10.0.0.7'' None defaultOptions demo_tracked)"

definition demo_blocked_later :: Redis where
  "demo_blocked_later = redis_elapse 299600 demo_blocked"

section \<open>The processor: what a run changes\<close>

lemma logger_fields [simp]:
  "auctions (logger l m s) = auctions s" "bids (logger l m s) = bids s"
  "users (logger l m s) = users s" "redis (logger l m s) = redis s"
  "rabbit (logger l m s) = rabbit s"
  by (simp_all add: logger_def)

lemma publishToExchange_fields [simp]:
  "auctions (publishToExchange x k m s) = auctions s" "bids (publishToExchange x k m s) = bids s"
  "users (publishToExchange x k m s) = users s" "redis (publishToExchange x k m s) = redis s"
  "channel (rabbit (publishToExchange x k m s)) = channel (rabbit s)"
  by (simp_all add: publishToExchange_def)

lemma handleFailedBid_fields [simp]:
  "auctions (handleFailedBid bd e s) = auctions s" "bids (handleFailedBid bd e s) = bids s"
  "users (handleFailedBid bd e s) = users s" "redis (handleFailedBid bd e s) = redis s"
  by (simp_all add: handleFailedBid_def publishNotification_def publishAuditLog_def Let_def)

lemma handleSuccessfulBid_fields [simp]:
  "auctions (handleSuccessfulBid b u a s) = auctions s" "bids (handleSuccessfulBid b u a s) = bids s"
  "users (handleSuccessfulBid b u a s) = users s"
  by (simp_all add: handleSuccessfulBid_def publishNotification_def publishAuditLog_def Let_def)

lemma processBid_fst: "fst (processBid bd now s) = fst (processBid_try bd now s)"
  by (simp add: processBid_def Let_def split: prod.splits)

lemma processBid_bids: "bids (snd (processBid bd now s)) = bids (snd (processBid_try bd now s))"
  by (simp add: processBid_def Let_def split: prod.splits sum.splits)

lemma processBid_auctions: "auctions (snd (processBid bd now s)) = auctions (snd (processBid_try bd now s))"
  by (simp add: processBid_def Let_def split: prod.splits sum.splits)

lemma processBid_users: "users (snd (processBid bd now s)) = users s"
  by (simp add: processBid_def processBid_try_def acquireLock_def findByIdAndUpdate_def Let_def split: prod.splits sum.splits option.splits)

text \<open>The conditions under which the processor accepts.\<close>

lemma try_accept:
  assumes "\<not> redis_exists (redis s) (''lock:'' @ ''bid-processing:'' @ bd_auctionId bd)"
    "auctions s (bd_auctionId bd) = Some a" "status a = ACTIVE" "startTime a \<le> now" "now \<le> endTime a"
    "js_or (currentHighestBid a) (startingBid a) + 100 \<le> bd_bidAmount bd"
    "users s (bd_userId bd) = Some u"
  shows "fst (processBid_try bd now s) = Inr ()"
    and "bids (snd (processBid_try bd now s)) = outbidSweep (bd_auctionId bd) (next_bid_id (bids s)) (bids s @ [createBid bd now (bids s)])"
    and "auctions (snd (processBid_try bd now s)) = (auctions s)(bd_auctionId bd \<mapsto> a\<lparr>currentHighestBid := bd_bidAmount bd, winnerId := Some (bd_userId bd), bidCount := bidCount a + 1\<rparr>)"
  using assms
  by (simp_all add: processBid_try_def acquireLock_def findByIdAndUpdate_def Let_def createBid_def)

lemma try_accepted_iff:
  "fst (processBid_try bd now s) = Inr () \<longleftrightarrow>
   (\<not> redis_exists (redis s) (''lock:'' @ ''bid-processing:'' @ bd_auctionId bd) \<and>
    (\<exists>a u. auctions s (bd_auctionId bd) = Some a \<and> status a = ACTIVE \<and> startTime a \<le> now \<and> now \<le> endTime a
       \<and> js_or (currentHighestBid a) (startingBid a) + 100 \<le> bd_bidAmount bd \<and> users s (bd_userId bd) = Some u))"
  by (auto simp add: processBid_try_def acquireLock_def findByIdAndUpdate_def Let_def split: if_splits option.splits)

lemma try_reject:
  assumes "fst (processBid_try bd now s) = Inl e"
  shows "bids (snd (processBid_try bd now s)) = bids s"
    and "auctions (snd (processBid_try bd now s)) = auctions s"
  using assms
  by (auto simp add: processBid_try_def acquireLock_def findByIdAndUpdate_def Let_def split: if_splits option.splits)

lemma outbidSweep_new:
  "bid_id nb = i \<Longrightarrow> outbidSweep aid i (bs @ [nb]) = outbidSweep aid i bs @ [nb]"
  by (simp add: outbidSweep_def)

text \<open>
  C3, as the code has it. The processor first takes the auction's lock and rejects
  the envelope when another run holds it. With the lock free, on an ACTIVE auction
  inside its time window and for an existing user, a bid of exactly the current
  highest bid (the starting bid when the current highest bid is 0) plus 100 is
  accepted: the bid is stored as ACCEPTED and winning and becomes the auction's
  current highest bid. A bid one unit lower is rejected as below that minimum and
  changes neither the bids nor the auctions.
\<close>

theorem processBid_minimum_increment:
  assumes "auctions s (bd_auctionId bd) = Some a" and "status a = ACTIVE"
    and "startTime a \<le> now" and "now < endTime a"
    and "users s (bd_userId bd) = Some u"
    and "\<not> redis_exists (redis s) (''lock:'' @ ''bid-processing:'' @ bd_auctionId bd)"
  shows "(bd_bidAmount bd = (if currentHighestBid a \<noteq> 0 then currentHighestBid a else startingBid a) + 100 \<longrightarrow>
            fst (processBid bd now s) = Inr () \<and>
            \<lparr>bid_id = next_bid_id (bids s), userId = bd_userId bd, auctionId = bd_auctionId bd,
             bidAmount = bd_bidAmount bd, timestamp = now, isWinning = True,
             bid_status = ACCEPTED\<rparr> \<in> set (bids (snd (processBid bd now s))) \<and>
            map_option currentHighestBid (auctions (snd (processBid bd now s)) (bd_auctionId bd))
              = Some (bd_bidAmount bd)) \<and>
         (bd_bidAmount bd = (if currentHighestBid a \<noteq> 0 then currentHighestBid a else startingBid a) + 100 - 1 \<longrightarrow>
            fst (processBid bd now s) = Inl (BidBelowMinimum ((if currentHighestBid a \<noteq> 0 then currentHighestBid a else startingBid a) + 100)) \<and>
            bids (snd (processBid bd now s)) = bids s \<and>
            auctions (snd (processBid bd now s)) = auctions s)"
proof (intro conjI impI)
  assume eq: "bd_bidAmount bd = (if currentHighestBid a \<noteq> 0 then currentHighestBid a else startingBid a) + 100"
  from assms eq have le: "now \<le> endTime a"
    and m: "js_or (currentHighestBid a) (startingBid a) + 100 \<le> bd_bidAmount bd"
    by (simp_all add: js_or_def)
  note facts = try_accept [OF assms(6) assms(1) assms(2) assms(3) le m assms(5)]
  show "fst (processBid bd now s) = Inr ()"
    using facts(1) by (simp add: processBid_fst)
  show "\<lparr>bid_id = next_bid_id (bids s), userId = bd_userId bd, auctionId = bd_auctionId bd,
         bidAmount = bd_bidAmount bd, timestamp = now, isWinning = True,
         bid_status = ACCEPTED\<rparr> \<in> set (bids (snd (processBid bd now s)))"
    using facts(2) by (simp add: processBid_bids outbidSweep_new createBid_def)
  show "map_option currentHighestBid (auctions (snd (processBid bd now s)) (bd_auctionId bd))
          = Some (bd_bidAmount bd)"
    using facts(3) by (simp add: processBid_auctions)
next
  assume eq: "bd_bidAmount bd = (if currentHighestBid a \<noteq> 0 then currentHighestBid a else startingBid a) + 100 - 1"
  have r: "fst (processBid_try bd now s) = Inl (BidBelowMinimum ((if currentHighestBid a \<noteq> 0 then currentHighestBid a else startingBid a) + 100))"
    using assms eq by (simp add: processBid_try_def acquireLock_def js_or_def Let_def)
  show "fst (processBid bd now s) = Inl (BidBelowMinimum ((if currentHighestBid a \<noteq> 0 then currentHighestBid a else startingBid a) + 100))"
    using r by (simp add: processBid_fst)
  show "bids (snd (processBid bd now s)) = bids s"
    using try_reject(1) [OF r] by (simp add: processBid_bids)
  show "auctions (snd (processBid bd now s)) = auctions s"
    using try_reject(2) [OF r] by (simp add: processBid_auctions)
qed

theorem processBid_minimum_increment_witness:
  "fst (processBid (demo_bid ''U1'' 250100) 1500 demo_system) = Inr () \<and>
   map_option currentHighestBid
     (auctions (snd (processBid (demo_bid ''U1'' 250100) 1500 demo_system)) ''A'') = Some 250100 \<and>
   fst (processBid (demo_bid ''U1'' 250099) 1500 demo_system) = Inl (BidBelowMinimum 250100) \<and>
   bids (snd (processBid (demo_bid ''U1'' 250099) 1500 demo_system)) = [] \<and>
   fst (processBid (demo_bid ''U1'' 250100) 1500 (demo_unbid demo_system)) = Inr () \<and>
   fst (processBid (demo_bid ''U1'' 250099) 1500 (demo_unbid demo_system))
     = Inl (BidBelowMinimum 250100)"
  using processBid_minimum_increment [of demo_system "demo_bid ''U1'' 250100" demo_auction 1500
          "\<lparr>username = ''ann'', email = ''ann@example.org''\<rparr>"]
        processBid_minimum_increment [of demo_system "demo_bid ''U1'' 250099" demo_auction 1500
          "\<lparr>username = ''ann'', email = ''ann@example.org''\<rparr>"]
        processBid_minimum_increment [of "demo_unbid demo_system" "demo_bid ''U1'' 250100"
          "demo_auction\<lparr>currentHighestBid := 0\<rparr>" 1500
          "\<lparr>username = ''ann'', email = ''ann@example.org''\<rparr>"]
        processBid_minimum_increment [of "demo_unbid demo_system" "demo_bid ''U1'' 250099"
          "demo_auction\<lparr>currentHighestBid := 0\<rparr>" 1500
          "\<lparr>username = ''ann'', email = ''ann@example.org''\<rparr>"]
  by (simp add: demo_unbid_def demo_system_def demo_auction_def demo_bid_def demo_redis_def
                redis_exists_def)

text \<open>
  C3 as stated fails. On the example, while another worker holds the lock of the
  running auction, the bid of exactly 250000 + 100 of an existing user, processed
  inside the time window, is rejected, for the lock, and nothing is stored.
\<close>

theorem minimum_increment_locked_counterexample:
  "map_option status (auctions demo_locked ''A'') = Some ACTIVE \<and>
   map_option currentHighestBid (auctions demo_locked ''A'') = Some 250000 \<and>
   map_option startTime (auctions demo_locked ''A'') = Some 1000 \<and>
   map_option endTime (auctions demo_locked ''A'') = Some 2000 \<and>
   map_option username (users demo_locked ''U2'') = Some ''bob'' \<and>
   fst (processBid (demo_bid ''U2'' 250100) 1500 demo_locked) = Inl LockNotAcquired \<and>
   bids (snd (processBid (demo_bid ''U2'' 250100) 1500 demo_locked)) = []"
  by code_simp

section \<open>The winning bid\<close>

lemma fold_max_ge: "k \<le> fold (\<lambda>b n. max (Suc (bid_id b)) n) bs k"
proof (induction bs arbitrary: k)
  case Nil
  show ?case by simp
next
  case (Cons b bs)
  have "k \<le> max (Suc (bid_id b)) k" by simp
  also have "\<dots> \<le> fold (\<lambda>b n. max (Suc (bid_id b)) n) bs (max (Suc (bid_id b)) k)"
    by (rule Cons.IH)
  finally show ?case by simp
qed

lemma fold_max_above:
  "b \<in> set bs \<Longrightarrow> bid_id b < fold (\<lambda>b n. max (Suc (bid_id b)) n) bs k"
proof (induction bs arbitrary: k)
  case Nil
  then show ?case by simp
next
  case (Cons c bs)
  show ?case
  proof (cases "b = c")
    case True
    have "Suc (bid_id c) \<le> max (Suc (bid_id c)) k" by simp
    also have "\<dots> \<le> fold (\<lambda>b n. max (Suc (bid_id b)) n) bs (max (Suc (bid_id c)) k)"
      by (rule fold_max_ge)
    finally show ?thesis using True by simp
  next
    case False
    with Cons.prems have "b \<in> set bs" by simp
    then show ?thesis using Cons.IH by simp
  qed
qed

lemma next_bid_id_fresh: "b \<in> set bs \<Longrightarrow> bid_id b \<noteq> next_bid_id bs"
  using fold_max_above [of b bs 0] by (simp add: next_bid_id_def)

lemma winningBids_sweep_same:
  assumes "\<forall>b \<in> set bs. bid_id b \<noteq> i"
  shows "winningBids aid (outbidSweep aid i bs) = []"
  using assms by (induction bs) (simp_all add: winningBids_def outbidSweep_def)

lemma winningBids_sweep_other:
  "aid' \<noteq> aid \<Longrightarrow> winningBids aid' (outbidSweep aid i bs) = winningBids aid' bs"
  by (induction bs) (simp_all add: winningBids_def outbidSweep_def)

lemma winningBids_append: "winningBids aid (bs @ cs) = winningBids aid bs @ winningBids aid cs"
  by (simp add: winningBids_def)

lemma winningBids_accepted:
  "winningBids aid (outbidSweep (bd_auctionId bd) (next_bid_id bs) (bs @ [createBid bd now bs])) =
     (if aid = bd_auctionId bd then [createBid bd now bs] else winningBids aid bs)"
proof (cases "aid = bd_auctionId bd")
  case True
  have "\<forall>b \<in> set bs. bid_id b \<noteq> next_bid_id bs" using next_bid_id_fresh by blast
  then have "winningBids aid (outbidSweep aid (next_bid_id bs) bs) = []"
    by (rule winningBids_sweep_same)
  moreover have "outbidSweep aid (next_bid_id bs) (bs @ [createBid bd now bs])
                 = outbidSweep aid (next_bid_id bs) bs @ [createBid bd now bs]"
    by (rule outbidSweep_new) (simp add: createBid_def)
  ultimately show ?thesis using True
    by (simp add: winningBids_append) (simp add: winningBids_def createBid_def)
next
  case False
  then show ?thesis
    by (simp add: winningBids_sweep_other winningBids_append) (simp add: winningBids_def createBid_def)
qed

text \<open>
  C1. A run of the processor that accepts leaves exactly one winning bid on the
  auction, the new one, and its amount is the auction's current highest bid; and any
  run, accepting or not, keeps the property "at most one winning bid, carrying the
  current highest bid" for every auction that had it.
\<close>

theorem processBid_winner_invariant:
  "(fst (processBid bd now s) = Inr () \<longrightarrow>
      (\<exists>b a. winningBids (bd_auctionId bd) (bids (snd (processBid bd now s))) = [b] \<and>
             auctions (snd (processBid bd now s)) (bd_auctionId bd) = Some a \<and>
             bidAmount b = bd_bidAmount bd \<and> bidAmount b = currentHighestBid a)) \<and>
   (winner_invariant s aid \<longrightarrow> winner_invariant (snd (processBid bd now s)) aid)"
proof (cases "fst (processBid_try bd now s)")
  case (Inl e)
  have "bids (snd (processBid bd now s)) = bids s" "auctions (snd (processBid bd now s)) = auctions s"
    using try_reject [OF Inl] by (simp_all add: processBid_bids processBid_auctions)
  then show ?thesis using Inl by (simp add: processBid_fst winner_invariant_def split: option.splits)
next
  case (Inr u)
  then have acc: "fst (processBid_try bd now s) = Inr ()" by simp
  then obtain a usr where lock: "\<not> redis_exists (redis s) (''lock:'' @ ''bid-processing:'' @ bd_auctionId bd)"
    and a: "auctions s (bd_auctionId bd) = Some a" "status a = ACTIVE" "startTime a \<le> now" "now \<le> endTime a"
      "js_or (currentHighestBid a) (startingBid a) + 100 \<le> bd_bidAmount bd"
    and usr: "users s (bd_userId bd) = Some usr"
    unfolding try_accepted_iff by blast
  note facts = try_accept [OF lock a usr]
  have bs: "bids (snd (processBid bd now s)) =
              outbidSweep (bd_auctionId bd) (next_bid_id (bids s)) (bids s @ [createBid bd now (bids s)])"
    using facts(2) by (simp add: processBid_bids)
  have au: "auctions (snd (processBid bd now s)) =
              (auctions s)(bd_auctionId bd \<mapsto> a\<lparr>currentHighestBid := bd_bidAmount bd,
                 winnerId := Some (bd_userId bd), bidCount := bidCount a + 1\<rparr>)"
    using facts(3) by (simp add: processBid_auctions)
  have first: "\<exists>b a'. winningBids (bd_auctionId bd) (bids (snd (processBid bd now s))) = [b] \<and>
             auctions (snd (processBid bd now s)) (bd_auctionId bd) = Some a' \<and>
             bidAmount b = bd_bidAmount bd \<and> bidAmount b = currentHighestBid a'"
    by (simp add: bs au winningBids_accepted) (simp add: createBid_def)
  have second: "winner_invariant s aid \<longrightarrow> winner_invariant (snd (processBid bd now s)) aid"
  proof (cases "aid = bd_auctionId bd")
    case True
    then show ?thesis
      by (simp add: winner_invariant_def bs au winningBids_accepted) (simp add: createBid_def)
  next
    case False
    then show ?thesis
      by (simp add: winner_invariant_def bs au winningBids_accepted split: option.splits)
  qed
  from first second show ?thesis by blast
qed

theorem processBid_winner_invariant_witness:
  "winner_invariant demo_system ''A'' \<and>
   fst (processBid (demo_bid ''U1'' 250100) 1500 demo_system) = Inr () \<and>
   winner_invariant (snd (processBid (demo_bid ''U1'' 250100) 1500 demo_system)) ''A'' \<and>
   (\<exists>b a. winningBids ''A'' (bids (snd (processBid (demo_bid ''U1'' 250100) 1500 demo_system))) = [b] \<and>
          auctions (snd (processBid (demo_bid ''U1'' 250100) 1500 demo_system)) ''A'' = Some a \<and>
          bidAmount b = 250100 \<and> bidAmount b = currentHighestBid a)"
proof -
  have inv: "winner_invariant demo_system ''A''"
    by (simp add: winner_invariant_def winningBids_def demo_system_def)
  have acc: "fst (processBid (demo_bid ''U1'' 250100) 1500 demo_system) = Inr ()"
    unfolding processBid_fst try_accepted_iff
    by (simp add: demo_system_def demo_auction_def demo_bid_def demo_redis_def redis_exists_def js_or_def)
  show ?thesis
    using processBid_winner_invariant [of "demo_bid ''U1'' 250100" 1500 demo_system "''A''"] inv acc
    by (simp add: demo_bid_def)
qed

section \<open>The end of the time window\<close>

text \<open>
  C2. The processor rejects as ended only when the server time is after the end time
  (\<^verbatim>\<open>now > auction.endTime\<close>). On the example auction, which ends at 2000, a bid
  processed at 1999 is accepted, a bid processed at 2000 is accepted too, and only a
  bid processed at 2001 is rejected as ended.
\<close>

theorem processBid_at_endTime:
  "endTime demo_auction = 2000 \<and>
   fst (processBid (demo_bid ''U1'' 250100) 1999 demo_system) = Inr () \<and>
   fst (processBid (demo_bid ''U1'' 250100) 2000 demo_system) = Inr () \<and>
   fst (processBid (demo_bid ''U1'' 250100) 2001 demo_system) = Inl AuctionHasEnded"
  by code_simp

section \<open>The bid count\<close>

lemma everAccepted_sweep:
  assumes "winning_are_accepted bs"
  shows "everAcceptedCount aid (outbidSweep aid' i bs) = everAcceptedCount aid bs"
  using assms
  by (induction bs) (auto simp add: everAcceptedCount_def outbidSweep_def winning_are_accepted_def)

lemma everAccepted_append:
  "everAcceptedCount aid (bs @ cs) = everAcceptedCount aid bs + everAcceptedCount aid cs"
  by (simp add: everAcceptedCount_def)

lemma everAccepted_new:
  "everAcceptedCount aid [createBid bd now bs] = (if aid = bd_auctionId bd then 1 else 0)"
  by (simp add: everAcceptedCount_def createBid_def)

lemma winning_are_accepted_sweep:
  "winning_are_accepted bs \<Longrightarrow> winning_are_accepted (outbidSweep aid i bs)"
  by (induction bs) (auto simp add: outbidSweep_def winning_are_accepted_def)

lemma winning_are_accepted_new:
  "winning_are_accepted bs \<Longrightarrow> winning_are_accepted (bs @ [createBid bd now bs])"
  by (simp add: winning_are_accepted_def createBid_def)

text \<open>
  C4, as the code has it. The outbid sweep moves the earlier winning bid from ACCEPTED
  to OUTBID, so the bids that count are those with status ACCEPTED or OUTBID: when the
  winning bids are ACCEPTED, every run of the processor keeps them so, an accepting
  run adds one to the auction's bid count and to the number of its bids with status
  ACCEPTED or OUTBID, and for every auction the equality of that number with the bid
  count is kept.
\<close>

theorem processBid_bidCount:
  assumes "winning_are_accepted (bids s)"
  shows "winning_are_accepted (bids (snd (processBid bd now s))) \<and>
         (fst (processBid bd now s) = Inr () \<longrightarrow>
            everAcceptedCount (bd_auctionId bd) (bids (snd (processBid bd now s)))
              = everAcceptedCount (bd_auctionId bd) (bids s) + 1 \<and>
            map_option bidCount (auctions (snd (processBid bd now s)) (bd_auctionId bd))
              = map_option (\<lambda>a. bidCount a + 1) (auctions s (bd_auctionId bd))) \<and>
         (bidCount_matches s aid \<longrightarrow> bidCount_matches (snd (processBid bd now s)) aid)"
proof (cases "fst (processBid_try bd now s)")
  case (Inl e)
  have "bids (snd (processBid bd now s)) = bids s" "auctions (snd (processBid bd now s)) = auctions s"
    using try_reject [OF Inl] by (simp_all add: processBid_bids processBid_auctions)
  then show ?thesis using Inl assms
    by (simp add: processBid_fst bidCount_matches_def split: option.splits)
next
  case (Inr u)
  then have acc: "fst (processBid_try bd now s) = Inr ()" by simp
  then obtain a usr where lock: "\<not> redis_exists (redis s) (''lock:'' @ ''bid-processing:'' @ bd_auctionId bd)"
    and a: "auctions s (bd_auctionId bd) = Some a" "status a = ACTIVE" "startTime a \<le> now" "now \<le> endTime a"
      "js_or (currentHighestBid a) (startingBid a) + 100 \<le> bd_bidAmount bd"
    and usr: "users s (bd_userId bd) = Some usr"
    unfolding try_accepted_iff by blast
  note facts = try_accept [OF lock a usr]
  have bs: "bids (snd (processBid bd now s)) =
              outbidSweep (bd_auctionId bd) (next_bid_id (bids s)) (bids s @ [createBid bd now (bids s)])"
    using facts(2) by (simp add: processBid_bids)
  have au: "auctions (snd (processBid bd now s)) =
              (auctions s)(bd_auctionId bd \<mapsto> a\<lparr>currentHighestBid := bd_bidAmount bd,
                 winnerId := Some (bd_userId bd), bidCount := bidCount a + 1\<rparr>)"
    using facts(3) by (simp add: processBid_auctions)
  have wa: "winning_are_accepted (bids s @ [createBid bd now (bids s)])"
    using assms by (rule winning_are_accepted_new)
  have cnt: "everAcceptedCount x (bids (snd (processBid bd now s)))
               = everAcceptedCount x (bids s) + (if x = bd_auctionId bd then 1 else 0)" for x
    by (simp add: bs everAccepted_sweep [OF wa] everAccepted_append everAccepted_new)
  have one: "winning_are_accepted (bids (snd (processBid bd now s)))"
    unfolding bs using wa by (rule winning_are_accepted_sweep)
  have two: "everAcceptedCount (bd_auctionId bd) (bids (snd (processBid bd now s)))
              = everAcceptedCount (bd_auctionId bd) (bids s) + 1"
    by (simp add: cnt)
  have three: "map_option bidCount (auctions (snd (processBid bd now s)) (bd_auctionId bd))
              = map_option (\<lambda>a. bidCount a + 1) (auctions s (bd_auctionId bd))"
    by (simp add: au a(1))
  have four: "bidCount_matches s aid \<longrightarrow> bidCount_matches (snd (processBid bd now s)) aid"
    using a(1) by (simp add: bidCount_matches_def cnt au split: option.splits)
  from one two three four show ?thesis by simp
qed

theorem processBid_bidCount_witness:
  "winning_are_accepted (bids demo_after_first) \<and> bidCount_matches demo_after_first ''A'' \<and>
   fst (processBid (demo_bid ''U2'' 250200) 1501 demo_after_first) = Inr () \<and>
   winning_are_accepted (bids demo_after_second) \<and> bidCount_matches demo_after_second ''A'' \<and>
   everAcceptedCount ''A'' (bids demo_after_second) = 2 \<and>
   map_option bidCount (auctions demo_after_second ''A'') = Some 2"
proof -
  have pre: "winning_are_accepted (bids demo_after_first)" "bidCount_matches demo_after_first ''A''"
    "fst (processBid (demo_bid ''U2'' 250200) 1501 demo_after_first) = Inr ()"
    "everAcceptedCount ''A'' (bids demo_after_first) = 1"
    "map_option bidCount (auctions demo_after_first ''A'') = Some 1"
    by code_simp+
  have aid: "bd_auctionId (demo_bid ''U2'' 250200) = ''A''" by (simp add: demo_bid_def)
  show ?thesis
    using processBid_bidCount [OF pre(1), of "demo_bid ''U2'' 250200" 1501 "''A''"] pre
    unfolding aid demo_after_second_def [symmetric]
    by (auto simp add: map_option_case split: option.splits)
qed

text \<open>
  C4 as stated fails: after the two accepted bids of the scenario the auction's bid
  count is 2, while one bid only has status ACCEPTED, the first being OUTBID.
\<close>

theorem bidCount_accepted_counterexample:
  "fst (processBid (demo_bid ''U1'' 250100) 1500 demo_system) = Inr () \<and>
   fst (processBid (demo_bid ''U2'' 250200) 1501 demo_after_first) = Inr () \<and>
   map_option bidCount (auctions demo_after_second ''A'') = Some 2 \<and>
   acceptedCount ''A'' (bids demo_after_second) = 1 \<and>
   map bid_status (bids demo_after_second) = [OUTBID, ACCEPTED]"
  by code_simp

section \<open>Failure handling and the lock\<close>




lemma processBid_lock_released:
  "\<not> redis_exists (redis (snd (processBid bd now s))) (''lock:'' @ ''bid-processing:'' @ bd_auctionId bd)"
  by (simp add: processBid_def Let_def releaseLock_def redis_del_def redis_exists_def
           split: prod.splits)





section \<open>The lock\<close>

lemma handleSuccessfulBid_lock:
  "rkeys (redis (handleSuccessfulBid b u a s)) (CHR ''l'' # k) = rkeys (redis s) (CHR ''l'' # k)"
  by (simp add: handleSuccessfulBid_def publishNotification_def publishAuditLog_def setJson_def Let_def)

lemma try_holds_lock:
  assumes "\<not> redis_exists (redis s) (''lock:'' @ ''bid-processing:'' @ bd_auctionId bd)"
  shows "rkeys (redis (snd (processBid_try bd now s))) (''lock:'' @ ''bid-processing:'' @ bd_auctionId bd)
           = Some \<lparr>rvalue = RString ''1'', pttl = Some 10000\<rparr>"
  using assms
  by (simp add: processBid_try_def acquireLock_def findByIdAndUpdate_def Let_def handleSuccessfulBid_lock
           split: option.splits)

text \<open>
  C5, as the code has it. The lock is a key written only when absent, with the time
  to live given and the constant value \<open>1\<close>: it names no holder. \<^verbatim>\<open>acquireLock\<close>
  fails exactly when the key exists and then changes nothing; \<^verbatim>\<open>releaseLock\<close>
  deletes the key whatever its value; and a run of \<^verbatim>\<open>processBid\<close> that found the
  lock free holds it, with a time to live of 10 s, to the end of its \<^verbatim>\<open>try\<close> block and
  has released it when it returns.
\<close>

theorem lock_without_owner:
  "(fst (acquireLock key ttl r) \<longleftrightarrow> \<not> redis_exists r (''lock:'' @ key)) \<and>
   (\<not> fst (acquireLock key ttl r) \<longrightarrow> snd (acquireLock key ttl r) = r) \<and>
   (fst (acquireLock key ttl r) \<longrightarrow>
      rkeys (snd (acquireLock key ttl r)) (''lock:'' @ key) = Some \<lparr>rvalue = RString ''1'', pttl = Some ttl\<rparr>) \<and>
   \<not> redis_exists (releaseLock key r) (''lock:'' @ key) \<and>
   (\<not> redis_exists (redis s) (''lock:'' @ ''bid-processing:'' @ bd_auctionId bd) \<longrightarrow>
      rkeys (redis (snd (processBid_try bd now s))) (''lock:'' @ ''bid-processing:'' @ bd_auctionId bd)
        = Some \<lparr>rvalue = RString ''1'', pttl = Some 10000\<rparr> \<and>
      \<not> redis_exists (redis (snd (processBid bd now s))) (''lock:'' @ ''bid-processing:'' @ bd_auctionId bd))"
proof -
  have "\<not> redis_exists (redis s) (''lock:'' @ ''bid-processing:'' @ bd_auctionId bd) \<longrightarrow>
      rkeys (redis (snd (processBid_try bd now s))) (''lock:'' @ ''bid-processing:'' @ bd_auctionId bd)
        = Some \<lparr>rvalue = RString ''1'', pttl = Some 10000\<rparr> \<and>
      \<not> redis_exists (redis (snd (processBid bd now s))) (''lock:'' @ ''bid-processing:'' @ bd_auctionId bd)"
    using try_holds_lock [of s bd now] processBid_lock_released [of bd now s] by blast
  moreover have "(fst (acquireLock key ttl r) \<longleftrightarrow> \<not> redis_exists r (''lock:'' @ key)) \<and>
   (\<not> fst (acquireLock key ttl r) \<longrightarrow> snd (acquireLock key ttl r) = r) \<and>
   (fst (acquireLock key ttl r) \<longrightarrow>
      rkeys (snd (acquireLock key ttl r)) (''lock:'' @ key) = Some \<lparr>rvalue = RString ''1'', pttl = Some ttl\<rparr>)"
    by (simp add: acquireLock_def)
  moreover have "\<not> redis_exists (releaseLock key r) (''lock:'' @ key)"
    by (simp add: releaseLock_def redis_del_def redis_exists_def)
  ultimately show ?thesis by blast
qed

theorem lock_without_owner_witness:
  "\<not> redis_exists (redis demo_system) ''lock:bid-processing:A'' \<and>
   fst (acquireLock ''bid-processing:A'' 10000 demo_redis) \<and>
   rkeys (redis demo_locked) ''lock:bid-processing:A'' = Some \<lparr>rvalue = RString ''1'', pttl = Some 10000\<rparr> \<and>
   \<not> fst (acquireLock ''bid-processing:A'' 10000 (redis demo_locked)) \<and>
   snd (acquireLock ''bid-processing:A'' 10000 (redis demo_locked)) = redis demo_locked \<and>
   \<not> redis_exists (releaseLock ''bid-processing:A'' (redis demo_locked)) ''lock:bid-processing:A'' \<and>
   rkeys (redis (snd (processBid_try (demo_bid ''U1'' 250100) 1500 demo_system))) ''lock:bid-processing:A''
     = Some \<lparr>rvalue = RString ''1'', pttl = Some 10000\<rparr> \<and>
   \<not> redis_exists (redis (snd (processBid (demo_bid ''U1'' 250100) 1500 demo_system))) ''lock:bid-processing:A''"
proof -
  have free: "\<not> redis_exists (redis demo_system) ''lock:bid-processing:A''"
    and held: "redis_exists (redis demo_locked) ''lock:bid-processing:A''"
    and got: "\<not> redis_exists demo_redis ''lock:bid-processing:A''"
    and r: "redis demo_locked = snd (acquireLock ''bid-processing:A'' 10000 demo_redis)"
    by (simp_all add: demo_system_def demo_locked_def demo_redis_def redis_exists_def acquireLock_def)
  show ?thesis
    using lock_without_owner [of "''bid-processing:A''" 10000 demo_redis demo_system "demo_bid ''U1'' 250100" 1500]
          lock_without_owner [of "''bid-processing:A''" 10000 "redis demo_locked" demo_system "demo_bid ''U1'' 250100" 1500]
          free held got
    by (simp add: r [symmetric] demo_bid_def)
qed

text \<open>
  C5 as stated fails. The value stored is \<open>1\<close>, not a worker's name, and on the example
  a run of \<^verbatim>\<open>processBid\<close> that finds the lock held by another worker fails to acquire
  it and still deletes it in its \<^verbatim>\<open>finally\<close>.
\<close>

theorem lock_release_counterexample:
  "redis_get (redis demo_locked) ''lock:bid-processing:A'' = Some ''1'' \<and>
   fst (processBid (demo_bid ''U2'' 250100) 1500 demo_locked) = Inl LockNotAcquired \<and>
   \<not> redis_exists (redis (snd (processBid (demo_bid ''U2'' 250100) 1500 demo_locked)))
        ''lock:bid-processing:A''"
  by code_simp

section \<open>The HTTP path against the processor\<close>



lemma updateOne_absent:
  "\<forall>b \<in> set bs. bid_id b \<noteq> i \<Longrightarrow> updateOne_notWinning i bs = bs"
  by (induction bs) simp_all







text \<open>
  The guard against the current highest bidder on the example: after the first bid of
  the scenario its bidder bids again over HTTP and is accepted, since the text of the
  user document is not the identifier; and when the user of the winning bid is not in
  the store, the bid of another user ends in the uncaught error.
\<close>

lemma placeBid_highest_bidder_guard:
  "map_option userId (findWinningBid ''A'' (bids demo_after_first)) = Some ''U1'' \<and>
   map_sum id (\<lambda>r. userId (fst r))
     (fst (placeBid \<lparr>pb_auctionId = ''A'', pb_bidAmount = 250200, pb_userId = ''U1''\<rparr> 1501
             demo_after_first)) = Inr ''U1'' \<and>
   fst (placeBid \<lparr>pb_auctionId = ''A'', pb_bidAmount = 250200, pb_userId = ''U2''\<rparr> 1501
          (demo_after_first\<lparr>users := Map.empty\<rparr>))
     = Inl (TypeError ''Cannot read properties of null'') \<and>
   bids (snd (placeBid \<lparr>pb_auctionId = ''A'', pb_bidAmount = 250200, pb_userId = ''U2''\<rparr> 1501
                (demo_after_first\<lparr>users := Map.empty\<rparr>)))
     = bids demo_after_first"
  by code_simp




section \<open>The gateway's acknowledgement\<close>

text \<open>
  C9. On a socket with user data, whatever the auction, the amount and the state of the
  server, \<^verbatim>\<open>handlePlaceBid\<close> emits the one event \<open>bidReceived\<close> and reads or writes
  no auction, bid or user. With the queue channel open the envelope is appended to the
  outbox of the \<open>auction-events\<close> exchange; without a channel the outbox stays as it is,
  one warning is logged and the acknowledgement is emitted all the same.
\<close>

theorem handlePlaceBid_acknowledges:
  assumes "data_user socket = Some user"
  shows "fst (handlePlaceBid (aid, amount) socket s) = [BidReceived ''Bid is being processed''] \<and>
         auctions (snd (handlePlaceBid (aid, amount) socket s)) = auctions s \<and>
         bids (snd (handlePlaceBid (aid, amount) socket s)) = bids s \<and>
         users (snd (handlePlaceBid (aid, amount) socket s)) = users s \<and>
         (channel (rabbit s) \<longrightarrow>
            outbox (rabbit (snd (handlePlaceBid (aid, amount) socket s))) =
              outbox (rabbit s) @
                [(''auction-events'', ''bid.placed'',
                  BidPlacedMsg \<lparr>bd_auctionId = aid, bd_userId = su_id user, bd_bidAmount = amount,
                                bd_username = su_username user, bd_socketId = socket_id socket\<rparr>)] \<and>
            logs (snd (handlePlaceBid (aid, amount) socket s)) = logs s) \<and>
         (\<not> channel (rabbit s) \<longrightarrow>
            outbox (rabbit (snd (handlePlaceBid (aid, amount) socket s))) = outbox (rabbit s) \<and>
            logs (snd (handlePlaceBid (aid, amount) socket s)) =
              logs s @ [(WARN, ''RabbitMQ channel not available, skipping message'')])"
  using assms
  by (simp add: handlePlaceBid_def publishBidProcessing_def publishToExchange_def logger_def Let_def)

theorem handlePlaceBid_acknowledges_witness:
  "fst (handlePlaceBid (''A'', 1) demo_socket (demo_system\<lparr>rabbit := \<lparr>channel = False, outbox = []\<rparr>\<rparr>))
     = [BidReceived ''Bid is being processed''] \<and>
   outbox (rabbit (snd (handlePlaceBid (''A'', 1) demo_socket
                          (demo_system\<lparr>rabbit := \<lparr>channel = False, outbox = []\<rparr>\<rparr>)))) = [] \<and>
   logs (snd (handlePlaceBid (''A'', 1) demo_socket
                (demo_system\<lparr>rabbit := \<lparr>channel = False, outbox = []\<rparr>\<rparr>)))
     = [(WARN, ''RabbitMQ channel not available, skipping message'')] \<and>
   fst (handlePlaceBid (''A'', 1) demo_socket demo_system) = [BidReceived ''Bid is being processed''] \<and>
   outbox (rabbit (snd (handlePlaceBid (''A'', 1) demo_socket demo_system)))
     = [(''auction-events'', ''bid.placed'',
         BidPlacedMsg \<lparr>bd_auctionId = ''A'', bd_userId = ''U1'', bd_bidAmount = 1,
                       bd_username = ''ann'', bd_socketId = ''socket-1''\<rparr>)]"
  using handlePlaceBid_acknowledges
          [of demo_socket "\<lparr>su_id = ''U1'', su_username = ''ann'', su_email = ''ann@example.org''\<rparr>"
              "''A''" 1 "demo_system\<lparr>rabbit := \<lparr>channel = False, outbox = []\<rparr>\<rparr>"]
        handlePlaceBid_acknowledges
          [of demo_socket "\<lparr>su_id = ''U1'', su_username = ''ann'', su_email = ''ann@example.org''\<rparr>"
              "''A''" 1 demo_system]
  by (simp add: demo_socket_def demo_system_def)

section \<open>Creating an auction\<close>

text \<open>
  C10. \<^verbatim>\<open>create\<close> refuses every request whose start time is not before its end time
  and then stores nothing. Otherwise it stores the auction it answers with: ACTIVE and
  starting now when the start time is not after now, PENDING with the start time given
  when it is; in both cases the current highest bid is the starting bid.
\<close>

theorem create_auction:
  "(dto_startTime dto \<ge> dto_endTime dto \<longrightarrow>
      create dto now newId s = (Inl (BadRequestException ''Start time must be before end time''), s)) \<and>
   (dto_startTime dto < dto_endTime dto \<longrightarrow>
      (\<exists>a. create dto now newId s = (Inr a, s\<lparr>auctions := (auctions s)(newId \<mapsto> a)\<rparr>) \<and>
           currentHighestBid a = dto_startingBid dto \<and> startingBid a = dto_startingBid dto \<and>
           endTime a = dto_endTime dto \<and> bidCount a = 0 \<and>
           (dto_startTime dto \<le> now \<longrightarrow> status a = ACTIVE \<and> startTime a = now) \<and>
           (now < dto_startTime dto \<longrightarrow> status a = PENDING \<and> startTime a = dto_startTime dto)))"
  by (simp add: create_def Let_def)

theorem create_auction_witness:
  "fst (create (demo_dto 500 400) 1000 ''B'' demo_system)
     = Inl (BadRequestException ''Start time must be before end time'') \<and>
   map_sum id (\<lambda>a. (status a, startTime a, currentHighestBid a))
     (fst (create (demo_dto 500 2000) 1000 ''B'' demo_system)) = Inr (ACTIVE, 1000, 250000) \<and>
   map_sum id (\<lambda>a. (status a, startTime a, currentHighestBid a))
     (fst (create (demo_dto 1500 2000) 1000 ''B'' demo_system)) = Inr (PENDING, 1500, 250000)"
  using create_auction [of "demo_dto 500 400" 1000 "''B''" demo_system]
        create_auction [of "demo_dto 500 2000" 1000 "''B''" demo_system]
        create_auction [of "demo_dto 1500 2000" 1000 "''B''" demo_system]
  by (auto simp add: demo_dto_def)

section \<open>Decimal numbers\<close>

declare toString_nat.simps [simp del]

lemma digit_cases: "d < 10 \<Longrightarrow> d \<in> {0, 1, 2, 3, 4, 5, 6, 7, 8, 9::nat}"
  by auto

lemma digit_val_digit_char: "d < 10 \<Longrightarrow> digit_val (digit_char d) = Some d"
  using digit_cases [of d] by (auto simp add: digit_val_def digit_char_def)

lemma digit_char_plain:
  "d < 10 \<Longrightarrow> \<not> is_space (digit_char d) \<and> digit_char d \<noteq> CHR ''-'' \<and> digit_char d \<noteq> CHR ''+''"
  using digit_cases [of d] by (auto simp add: is_space_def digit_char_def)

lemma toString_nat_digits: "c \<in> set (toString_nat n) \<Longrightarrow> \<exists>d < 10. c = digit_char d"
proof (induction n arbitrary: c rule: toString_nat.induct)
  case (1 n)
  show ?case
  proof (cases "n < 10")
    case True
    with "1.prems" show ?thesis by (subst (asm) toString_nat.simps) auto
  next
    case False
    with "1.prems" have "c \<in> set (toString_nat (n div 10)) \<or> c = digit_char (n mod 10)"
      by (subst (asm) toString_nat.simps) auto
    then show ?thesis
    proof
      assume "c \<in> set (toString_nat (n div 10))"
      with False "1.IH" show ?thesis by blast
    next
      assume "c = digit_char (n mod 10)"
      moreover have "n mod 10 < 10" by simp
      ultimately show ?thesis by blast
    qed
  qed
qed

lemma toString_nat_nonempty: "toString_nat n \<noteq> []"
  by (subst toString_nat.simps) simp

lemma digits_value_append:
  "\<forall>c \<in> set xs. digit_val c \<noteq> None \<Longrightarrow>
   digits_value acc (xs @ ys) = digits_value (digits_value acc xs) ys"
  by (induction xs arbitrary: acc) (auto split: option.splits)

lemma toString_nat_all_digits: "\<forall>c \<in> set (toString_nat n). digit_val c \<noteq> None"
  using toString_nat_digits digit_val_digit_char by fastforce

lemma digits_value_toString:
  "digits_value acc (toString_nat n) = acc * 10 ^ length (toString_nat n) + n"
proof (induction n arbitrary: acc rule: toString_nat.induct)
  case (1 n)
  show ?case
  proof (cases "n < 10")
    case True
    then show ?thesis by (subst (1 2) toString_nat.simps) (simp add: digit_val_digit_char)
  next
    case False
    have d: "digit_val (digit_char (n mod 10)) = Some (n mod 10)"
      by (rule digit_val_digit_char) simp
    have "digits_value acc (toString_nat n)
            = digits_value (digits_value acc (toString_nat (n div 10))) [digit_char (n mod 10)]"
      using False by (subst toString_nat.simps) (simp add: digits_value_append toString_nat_all_digits)
    also have "\<dots> = (acc * 10 ^ length (toString_nat (n div 10)) + n div 10) * 10 + n mod 10"
      using False by (simp add: "1.IH" d)
    also have "\<dots> = acc * 10 ^ length (toString_nat n) + n"
      using False by (subst (2) toString_nat.simps) (simp add: algebra_simps)
    finally show ?thesis .
  qed
qed

lemma parseInt_digits:
  assumes "xs \<noteq> []" and "\<forall>c \<in> set xs. digit_val c \<noteq> None"
    and "\<not> is_space (hd xs)" and "hd xs \<noteq> CHR ''-''" and "hd xs \<noteq> CHR ''+''"
  shows "parseInt xs = Some (int (digits_value 0 xs))"
proof -
  from assms(1,3) have dw: "dropWhile is_space xs = xs" by (cases xs) simp_all
  from assms(2) have tw: "takeWhile is_digit xs = xs"
    by (simp add: is_digit_def takeWhile_eq_all_conv)
  show ?thesis using assms(1,4,5) by (simp add: parseInt_def Let_def dw tw)
qed

lemma parseInt_toString: "parseInt (toString_nat n) = Some (int n)"
proof -
  have ne: "toString_nat n \<noteq> []" by (rule toString_nat_nonempty)
  then have "hd (toString_nat n) \<in> set (toString_nat n)" by simp
  then obtain d where d: "d < 10" "hd (toString_nat n) = digit_char d"
    using toString_nat_digits by blast
  have plain: "\<not> is_space (hd (toString_nat n))" "hd (toString_nat n) \<noteq> CHR ''-''"
    "hd (toString_nat n) \<noteq> CHR ''+''"
    using digit_char_plain [OF d(1)] d(2) by simp_all
  have "parseInt (toString_nat n) = Some (int (digits_value 0 (toString_nat n)))"
    using ne toString_nat_all_digits plain by (rule parseInt_digits)
  then show ?thesis by (simp add: digits_value_toString)
qed

lemma connectionCount_toString: "connectionCount (Some (toString_nat n)) = Some (int n)"
  by (simp add: connectionCount_def toString_nat_nonempty parseInt_toString)

section \<open>The admission controller\<close>

lemma redis_frame:
  "k' \<noteq> k \<Longrightarrow> rkeys (redis_sadd k m r) k' = rkeys r k'"
  "k' \<noteq> k \<Longrightarrow> rkeys (redis_set k v t r) k' = rkeys r k'"
  "k' \<noteq> k \<Longrightarrow> rkeys (redis_expire k n r) k' = rkeys r k'"
  "k' \<noteq> k \<Longrightarrow> rkeys (setJson k doc t r) k' = rkeys r k'"
  by (simp_all add: redis_sadd_def redis_set_def redis_plain_set_def redis_setex_def
                    redis_expire_def setJson_def Let_def
               split: option.splits RedisValue.splits)

lemma redis_sadd_new:
  assumes "(rkeys r k = None \<and> ys = []) \<or> (\<exists>t. rkeys r k = Some \<lparr>rvalue = RSet ys, pttl = t\<rparr>)"
    and "m \<notin> set ys"
  shows "\<exists>t. rkeys (redis_sadd k m r) k = Some \<lparr>rvalue = RSet (ys @ [m]), pttl = t\<rparr>"
  using assms by (auto simp add: redis_sadd_def)

lemma trackConnection_address:
  assumes "(rkeys r (''ws-sockets:ip:'' @ ip) = None \<and> ys = []) \<or>
           (\<exists>t. rkeys r (''ws-sockets:ip:'' @ ip) = Some \<lparr>rvalue = RSet ys, pttl = t\<rparr>)"
    and "sid \<notin> set ys"
  shows "rkeys (trackConnection ip sid uid defaultOptions r) (''ws-sockets:ip:'' @ ip)
           = Some \<lparr>rvalue = RSet (ys @ [sid]), pttl = Some 60000\<rparr>"
    and "redis_get (trackConnection ip sid uid defaultOptions r) (''ws-connections:ip:'' @ ip)
           = Some (toString_nat (Suc (length ys)))"
    and "rkeys (trackConnection ip sid uid defaultOptions r) (''ws-block:ip:'' @ ip)
           = rkeys r (''ws-block:ip:'' @ ip)"
proof -
  let ?sk = "''ws-sockets:ip:'' @ ip" and ?ck = "''ws-connections:ip:'' @ ip"
  let ?r1 = "redis_sadd ?sk sid r"
  let ?r2 = "redis_set ?ck (toString_nat (redis_scard ?r1 ?sk)) (Some 60) ?r1"
  let ?r3 = "redis_expire ?sk 60 ?r2"
  obtain t where r1: "rkeys ?r1 ?sk = Some \<lparr>rvalue = RSet (ys @ [sid]), pttl = t\<rparr>"
    using redis_sadd_new [OF assms] by blast
  have card: "redis_scard ?r1 ?sk = Suc (length ys)"
    using r1 by (simp add: redis_scard_def redis_smembers_def)
  have r3s: "rkeys ?r3 ?sk = Some \<lparr>rvalue = RSet (ys @ [sid]), pttl = Some 60000\<rparr>"
    using r1 by (simp add: redis_expire_def redis_frame)
  have r3c: "rkeys ?r3 ?ck = Some \<lparr>rvalue = RString (toString_nat (Suc (length ys))), pttl = Some 60000\<rparr>"
    using card by (simp add: redis_frame) (simp add: redis_set_def redis_setex_def)
  have r3b: "rkeys ?r3 (''ws-block:ip:'' @ ip) = rkeys r (''ws-block:ip:'' @ ip)"
    by (simp add: redis_frame)
  have tc: "trackConnection ip sid uid defaultOptions r =
          setJson (''ws-socket:'' @ sid) (SocketInfoDoc ip uid) (Some 60)
            (if truthy uid
             then redis_expire (''ws-sockets:user:'' @ template uid) 60
                    (redis_set (''ws-connections:user:'' @ template uid)
                       (toString_nat (redis_scard (redis_sadd (''ws-sockets:user:'' @ template uid) sid ?r3)
                                        (''ws-sockets:user:'' @ template uid)))
                       (Some 60)
                       (redis_sadd (''ws-sockets:user:'' @ template uid) sid ?r3))
             else ?r3)"
    by (simp add: trackConnection_def defaultOptions_def Let_def)
  show "rkeys (trackConnection ip sid uid defaultOptions r) ?sk
           = Some \<lparr>rvalue = RSet (ys @ [sid]), pttl = Some 60000\<rparr>"
    unfolding tc using r3s by (simp add: redis_frame)
  show "redis_get (trackConnection ip sid uid defaultOptions r) ?ck
           = Some (toString_nat (Suc (length ys)))"
    unfolding tc redis_get_def using r3c by (simp add: redis_frame)
  show "rkeys (trackConnection ip sid uid defaultOptions r) (''ws-block:ip:'' @ ip)
           = rkeys r (''ws-block:ip:'' @ ip)"
    unfolding tc using r3b by (simp add: redis_frame)
qed


lemma trackAll_snoc:
  "trackAll ip (xs @ [(sid, uid)]) r = trackConnection ip sid uid defaultOptions (trackAll ip xs r)"
  by (simp add: trackAll_def)

lemma trackAll_state:
  assumes "rkeys r (''ws-sockets:ip:'' @ ip) = None" and "distinct (map fst xs)"
  shows "((rkeys (trackAll ip xs r) (''ws-sockets:ip:'' @ ip) = None \<and> map fst xs = []) \<or>
          (\<exists>t. rkeys (trackAll ip xs r) (''ws-sockets:ip:'' @ ip)
                 = Some \<lparr>rvalue = RSet (map fst xs), pttl = t\<rparr>)) \<and>
         (xs \<noteq> [] \<longrightarrow> redis_get (trackAll ip xs r) (''ws-connections:ip:'' @ ip)
                         = Some (toString_nat (length xs))) \<and>
         rkeys (trackAll ip xs r) (''ws-block:ip:'' @ ip) = rkeys r (''ws-block:ip:'' @ ip)"
  using assms(2)
proof (induction xs rule: rev_induct)
  case Nil
  show ?case using assms(1) by (simp add: trackAll_def)
next
  case (snoc x xs)
  obtain sid uid where x: "x = (sid, uid)" by (cases x)
  from snoc.prems have d: "distinct (map fst xs)" and new: "sid \<notin> set (map fst xs)"
    by (simp_all add: x)
  from snoc.IH [OF d]
  have pre: "(rkeys (trackAll ip xs r) (''ws-sockets:ip:'' @ ip) = None \<and> map fst xs = []) \<or>
          (\<exists>t. rkeys (trackAll ip xs r) (''ws-sockets:ip:'' @ ip)
                 = Some \<lparr>rvalue = RSet (map fst xs), pttl = t\<rparr>)"
    and blk: "rkeys (trackAll ip xs r) (''ws-block:ip:'' @ ip) = rkeys r (''ws-block:ip:'' @ ip)"
    by blast+
  note step = trackConnection_address [OF pre new, of uid]
  have "rkeys (trackAll ip (xs @ [x]) r) (''ws-sockets:ip:'' @ ip)
          = Some \<lparr>rvalue = RSet (map fst (xs @ [x])), pttl = Some 60000\<rparr>"
    unfolding x trackAll_snoc using step(1) by simp
  moreover have "redis_get (trackAll ip (xs @ [x]) r) (''ws-connections:ip:'' @ ip)
                   = Some (toString_nat (length (xs @ [x])))"
    unfolding x trackAll_snoc using step(2) by simp
  moreover have "rkeys (trackAll ip (xs @ [x]) r) (''ws-block:ip:'' @ ip) = rkeys r (''ws-block:ip:'' @ ip)"
    unfolding x trackAll_snoc using step(3) blk by simp
  ultimately show ?case by blast
qed

lemma trackAll_count:
  assumes "rkeys r (''ws-sockets:ip:'' @ ip) = None" and "rkeys r (''ws-connections:ip:'' @ ip) = None"
    and "distinct (map fst xs)"
  shows "connectionCount (redis_get (trackAll ip xs r) (''ws-connections:ip:'' @ ip)) = Some (int (length xs))"
proof (cases "xs = []")
  case True
  then show ?thesis using assms(2) by (simp add: trackAll_def redis_get_def connectionCount_def)
next
  case False
  with trackAll_state [OF assms(1,3)]
  have "redis_get (trackAll ip xs r) (''ws-connections:ip:'' @ ip) = Some (toString_nat (length xs))"
    by blast
  then show ?thesis by (simp only: connectionCount_toString)
qed

lemma check_unblocked:
  assumes "rkeys t (''ws-block:ip:'' @ ip) = None"
    and "connectionCount (redis_get t (''ws-connections:ip:'' @ ip)) = Some n"
  shows "checkConnectionLimit ip None defaultOptions t =
           (if 5 \<le> n
            then (blocked ''Too many connections from this IP address'' 300,
                  t\<lparr>rkeys := (rkeys t)(''ws-block:ip:'' @ ip \<mapsto> \<lparr>rvalue = RString ''1'', pttl = Some 300000\<rparr>)\<rparr>)
            else (\<lparr>allowed = True, reason = None, retryAfter = None\<rparr>, t))"
  using assms
  by (simp add: checkConnectionLimit_def redis_exists_def truthy_def at_least_def defaultOptions_def
                redis_set_def redis_setex_def Let_def)

lemma check_blocked:
  assumes "redis_exists t (''ws-block:ip:'' @ ip)"
  shows "checkConnectionLimit ip uid config t =
           (blocked ''IP temporarily blocked due to too many connections''
              (if redis_ttl t (''ws-block:ip:'' @ ip) > 0 then redis_ttl t (''ws-block:ip:'' @ ip)
               else blockDuration config div 1000), t)"
  using assms by (simp add: checkConnectionLimit_def Let_def)

text \<open>
  C8, as the code has it. For an address with no block flag and nothing tracked yet,
  after any number of connections with distinct sockets have been tracked, the check
  by address allows the next connection while fewer than 5 are tracked, so the fifth
  is allowed; once 5 or more are tracked it denies, answers a retry time of 300 s and
  sets the block flag of the address with a time to live of 300 s. While the flag
  exists, a check (with or without a user) is denied at once and leaves the cache as it
  is; its retry time is the time to live that the cache reports for the flag when that
  is positive, and the whole block duration otherwise.
\<close>

theorem checkConnectionLimit_admission:
  assumes "rkeys r (''ws-sockets:ip:'' @ ip) = None" and "rkeys r (''ws-connections:ip:'' @ ip) = None"
    and "rkeys r (''ws-block:ip:'' @ ip) = None" and "distinct (map fst conns)"
  shows "(length conns < 5 \<longrightarrow>
            checkConnectionLimit ip None defaultOptions (trackAll ip conns r) =
              (\<lparr>allowed = True, reason = None, retryAfter = None\<rparr>, trackAll ip conns r)) \<and>
         (5 \<le> length conns \<longrightarrow>
            checkConnectionLimit ip None defaultOptions (trackAll ip conns r) =
              (blocked ''Too many connections from this IP address'' 300,
               (trackAll ip conns r)\<lparr>rkeys := (rkeys (trackAll ip conns r))
                  (''ws-block:ip:'' @ ip \<mapsto> \<lparr>rvalue = RString ''1'', pttl = Some 300000\<rparr>)\<rparr>)) \<and>
         (redis_exists r' (''ws-block:ip:'' @ ip) \<longrightarrow>
            checkConnectionLimit ip uid config r' =
              (blocked ''IP temporarily blocked due to too many connections''
                 (if redis_ttl r' (''ws-block:ip:'' @ ip) > 0 then redis_ttl r' (''ws-block:ip:'' @ ip)
                  else blockDuration config div 1000), r'))"
proof -
  have b: "rkeys (trackAll ip conns r) (''ws-block:ip:'' @ ip) = None"
    using trackAll_state [OF assms(1,4)] assms(3) by simp
  have c: "connectionCount (redis_get (trackAll ip conns r) (''ws-connections:ip:'' @ ip))
             = Some (int (length conns))"
    using assms(1,2,4) by (rule trackAll_count)
  show ?thesis
    using check_unblocked [OF b c] check_blocked [of r' ip uid config] by simp
qed


theorem checkConnectionLimit_admission_witness:
  "checkConnectionLimit ''10.0.0.7'' None defaultOptions
     (trackAll ''10.0.0.7'' [(''s1'', None), (''s2'', Some ''U1''), (''s3'', None), (''s4'', Some ''U2'')]
        demo_redis)
     = (\<lparr>allowed = True, reason = None, retryAfter = None\<rparr>,
        trackAll ''10.0.0.7'' [(''s1'', None), (''s2'', Some ''U1''), (''s3'', None), (''s4'', Some ''U2'')]
          demo_redis) \<and>
   fst (checkConnectionLimit ''10.0.0.7'' None defaultOptions demo_tracked)
     = blocked ''Too many connections from this IP address'' 300 \<and>
   rkeys demo_blocked ''ws-block:ip:10.0.0.7'' = Some \<lparr>rvalue = RString ''1'', pttl = Some 300000\<rparr> \<and>
   redis_exists (redis_elapse 1000 demo_blocked) ''ws-block:ip:10.0.0.7'' \<and>
   checkConnectionLimit ''10.0.0.7'' (Some ''U1'') defaultOptions (redis_elapse 1000 demo_blocked)
     = (blocked ''IP temporarily blocked due to too many connections'' 299,
        redis_elapse 1000 demo_blocked)"
proof -
  have e: "rkeys demo_redis (''ws-sockets:ip:'' @ ''10.0.0.7'') = None"
    "rkeys demo_redis (''ws-connections:ip:'' @ ''10.0.0.7'') = None"
    "rkeys demo_redis (''ws-block:ip:'' @ ''10.0.0.7'') = None"
    by (simp_all add: demo_redis_def)
  have d4: "distinct (map fst [(''s1'', None :: string option), (''s2'', Some ''U1''), (''s3'', None),
                               (''s4'', Some ''U2'')])"
    and d5: "distinct (map fst [(''s1'', None :: string option), (''s2'', Some ''U1''), (''s3'', None),
                               (''s4'', Some ''U2''), (''s5'', None)])"
    by simp_all
  have later: "redis_exists (redis_elapse 1000 demo_blocked) ''ws-block:ip:10.0.0.7''"
    "redis_ttl (redis_elapse 1000 demo_blocked) ''ws-block:ip:10.0.0.7'' = 299"
    by code_simp+
  have bd: "blockDuration defaultOptions div 1000 = 300" by (simp add: defaultOptions_def)
  show ?thesis
    using checkConnectionLimit_admission [OF e d4, of "redis_elapse 1000 demo_blocked" "Some ''U1''" defaultOptions]
          checkConnectionLimit_admission [OF e d5, of "redis_elapse 1000 demo_blocked" "Some ''U1''" defaultOptions]
          later
    by (simp add: demo_blocked_def demo_tracked_def)
qed

text \<open>
  C8 as stated fails in its last part. On the example the flag is set with 300 s to
  live; 299.6 s later it still exists with 400 ms left, the cache reports a time to
  live of 0 s, and the check answers a retry time of 300 s, not the remaining time.
\<close>

theorem retryAfter_counterexample:
  "rkeys demo_blocked_later ''ws-block:ip:10.0.0.7'' = Some \<lparr>rvalue = RString ''1'', pttl = Some 400\<rparr> \<and>
   redis_exists demo_blocked_later ''ws-block:ip:10.0.0.7'' \<and>
   redis_ttl demo_blocked_later ''ws-block:ip:10.0.0.7'' = 0 \<and>
   fst (checkConnectionLimit ''10.0.0.7'' None defaultOptions demo_blocked_later)
     = blocked ''IP temporarily blocked due to too many connections'' 300"
  by code_simp

end
